theory Spec2Isabelle
  imports Main "HOL-Library.Word" "HOL-Library.Sublist"
begin

unbundle bit_operations_syntax

section \<open>Binlog events\<close>

text \<open>
  The events come from the go-mysql replication package. Only the parts the two source
  files read are kept: the header fields and, for the payload, the Go types the code
  distinguishes by type assertion. The GTID set is an interface value of the library;
  the development is parametric in its type \<open>'g\<close>.
\<close>

datatype EventType =
    UNKNOWN_EVENT
  | QUERY_EVENT
  | ROTATE_EVENT
  | FORMAT_DESCRIPTION_EVENT
  | XID_EVENT
  | HEARTBEAT_EVENT
  | IGNORABLE_EVENT
  | PREVIOUS_GTIDS_EVENT
  | MARIADB_GTID_EVENT
  | MARIADB_GTID_LIST_EVENT
  | OTHER_EVENT

record EventHeader =
  Timestamp :: "32 word"
  EventType :: EventType
  ServerID :: "32 word"
  LogPos :: "32 word"
  Flags :: "16 word"

datatype 'g Event =
    RotateEvent "64 word" string
  | XIDEvent 'g
  | QueryEvent string 'g
  | MariadbGTIDEvent bool
  | GenericEvent

text \<open>
  \<open>RotateEvent p n\<close>: field \<open>Position = p\<close>, field \<open>NextLogName = n\<close>.
  \<open>XIDEvent g\<close> and \<open>QueryEvent q g\<close>: field \<open>GSet = g\<close>, field \<open>Query = q\<close>.
  \<open>MariadbGTIDEvent d\<close>: \<open>d\<close> is what the method \<open>IsDDL()\<close> returns.
\<close>

record 'g BinlogEvent =
  Header :: EventHeader
  Event :: "'g Event"

text \<open>The flag \<open>LOG_EVENT_ARTIFICIAL_F\<close>; the source's comment gives its value, 0x0020.\<close>

definition LOG_EVENT_ARTIFICIAL_F :: "16 word" where
  "LOG_EVENT_ARTIFICIAL_F = 0x0020"

section \<open>strings.TrimSpace\<close>

text \<open>
  Go's \<open>strings.TrimSpace\<close> removes leading and trailing white space as Unicode defines
  it, on the UTF-8 bytes of the string: the six ASCII characters, U+0085 and U+00A0
  (two bytes each), and U+1680, U+2000 to U+200A, U+2028, U+2029, U+202F, U+205F and
  U+3000 (three bytes each).
\<close>

definition isSpace1 :: "char \<Rightarrow> bool" where
  "isSpace1 a = (a = CHR 0x09 \<or> a = CHR 0x0A \<or> a = CHR 0x0B \<or> a = CHR 0x0C
     \<or> a = CHR 0x0D \<or> a = CHR 0x20)"

definition isSpace2 :: "char \<Rightarrow> char \<Rightarrow> bool" where
  "isSpace2 a b = (a = CHR 0xC2 \<and> (b = CHR 0x85 \<or> b = CHR 0xA0))"

definition isSpace3 :: "char \<Rightarrow> char \<Rightarrow> char \<Rightarrow> bool" where
  "isSpace3 a b c =
     ((a = CHR 0xE1 \<and> b = CHR 0x9A \<and> c = CHR 0x80)
    \<or> (a = CHR 0xE2 \<and> b = CHR 0x80 \<and>
         ((0x80 \<le> (of_char c :: nat) \<and> (of_char c :: nat) \<le> 0x8A)
          \<or> c = CHR 0xA8 \<or> c = CHR 0xA9 \<or> c = CHR 0xAF))
    \<or> (a = CHR 0xE2 \<and> b = CHR 0x81 \<and> c = CHR 0x9F)
    \<or> (a = CHR 0xE3 \<and> b = CHR 0x80 \<and> c = CHR 0x80))"

fun trimRunes ::
  "(char \<Rightarrow> char \<Rightarrow> bool) \<Rightarrow> (char \<Rightarrow> char \<Rightarrow> char \<Rightarrow> bool) \<Rightarrow> string \<Rightarrow> string" where
  "trimRunes p2 p3 (a # b # c # s) =
     (if isSpace1 a then trimRunes p2 p3 (b # c # s)
      else if p2 a b then trimRunes p2 p3 (c # s)
      else if p3 a b c then trimRunes p2 p3 s
      else a # b # c # s)"
| "trimRunes p2 p3 [a, b] =
     (if isSpace1 a then trimRunes p2 p3 [b] else if p2 a b then [] else [a, b])"
| "trimRunes p2 p3 [a] = (if isSpace1 a then [] else [a])"
| "trimRunes p2 p3 [] = []"

definition TrimSpace :: "string \<Rightarrow> string" where
  "TrimSpace s =
     rev (trimRunes (\<lambda>a b. isSpace2 b a) (\<lambda>a b c. isSpace3 c b a)
       (rev (trimRunes isSpace2 isSpace3 s)))"

section \<open>Locations (package binlog)\<close>

record Position =
  Name :: string
  Pos :: "32 word"

record 'g Location =
  Position :: Position
  gtidSet :: 'g
  Suffix :: int

text \<open>
  Modelled from the spec: the constant \<open>binlog.FileHeaderLen\<close> is declared outside the
  two source files; the spec gives the file-header length as 4.
\<close>

definition FileHeaderLen :: "32 word" where
  "FileHeaderLen = 4"

text \<open>
  Modelled from the spec: \<open>Location.Clone\<close> is declared outside the two source files; a
  location is a value here, so that its clone is the location itself.
\<close>

definition Clone :: "'g Location \<Rightarrow> 'g Location" where
  "Clone loc = loc"

text \<open>
  Modelled from the spec: \<open>Location.SetGTID\<close> is declared outside the two source files;
  the spec says that it sets the location's GTID set from the event's.
\<close>

definition SetGTID :: "'g Location \<Rightarrow> 'g \<Rightarrow> 'g Location" where
  "SetGTID loc gset = loc\<lparr>gtidSet := gset\<rparr>"

section \<open>The location recorder (dm/syncer/binlog\_locations.go)\<close>

record 'g locationRecorder =
  curStartLocation :: "'g Location"
  curEndLocation :: "'g Location"
  txnEndLocation :: "'g Location"
  inDML :: bool

definition reset :: "'g locationRecorder \<Rightarrow> 'g Location \<Rightarrow> 'g locationRecorder" where
  "reset l loc = l\<lparr>curStartLocation := loc, curEndLocation := loc, txnEndLocation := loc\<rparr>"

definition saveTxnEndLocation :: "'g locationRecorder \<Rightarrow> 'g locationRecorder" where
  "saveTxnEndLocation l = l\<lparr>txnEndLocation := Clone (curEndLocation l)\<rparr>"

definition shouldUpdatePos :: "'g BinlogEvent \<Rightarrow> bool" where
  "shouldUpdatePos e =
     (case EventType (Header e) of
        FORMAT_DESCRIPTION_EVENT \<Rightarrow> False
      | HEARTBEAT_EVENT \<Rightarrow> False
      | IGNORABLE_EVENT \<Rightarrow> False
      | PREVIOUS_GTIDS_EVENT \<Rightarrow> False
      | MARIADB_GTID_LIST_EVENT \<Rightarrow> False
      | _ \<Rightarrow> if Flags (Header e) AND LOG_EVENT_ARTIFICIAL_F \<noteq> 0 then False else True)"

definition setCurrentGTID :: "'g locationRecorder \<Rightarrow> 'g \<Rightarrow> 'g locationRecorder" where
  "setCurrentGTID l gset = l\<lparr>curEndLocation := SetGTID (curEndLocation l) gset\<rparr>"

definition setEndName :: "'g locationRecorder \<Rightarrow> string \<Rightarrow> 'g locationRecorder" where
  "setEndName l n =
     l\<lparr>curEndLocation := (curEndLocation l)\<lparr>Position := (Position (curEndLocation l))\<lparr>Name := n\<rparr>\<rparr>\<rparr>"

definition setEndPos :: "'g locationRecorder \<Rightarrow> 32 word \<Rightarrow> 'g locationRecorder" where
  "setEndPos l p =
     l\<lparr>curEndLocation := (curEndLocation l)\<lparr>Position := (Position (curEndLocation l))\<lparr>Pos := p\<rparr>\<rparr>\<rparr>"

text \<open>
  \<open>setEndName\<close> and \<open>setEndPos\<close> are the assignments to
  \<open>l.curEndLocation.Position.Name\<close> and \<open>l.curEndLocation.Position.Pos\<close>.
  \<open>update\<close> follows the source statement by statement; the mutex is left out.
\<close>

definition update :: "'g locationRecorder \<Rightarrow> 'g BinlogEvent \<Rightarrow> 'g locationRecorder" where
  "update l e =
     (let l1 = l\<lparr>curStartLocation := curEndLocation l\<rparr> in
      if \<not> shouldUpdatePos e then l1
      else case Event e of
        RotateEvent p nextName \<Rightarrow>
          if Name (Position (curEndLocation l1)) \<noteq> nextName
          then saveTxnEndLocation (setEndPos (setEndName l1 nextName) FileHeaderLen)
          else l1
      | XIDEvent gset \<Rightarrow>
          (saveTxnEndLocation (setCurrentGTID (setEndPos l1 (LogPos (Header e))) gset))
            \<lparr>inDML := False\<rparr>
      | QueryEvent q gset \<Rightarrow>
          (let l2 = setEndPos l1 (LogPos (Header e));
               query = TrimSpace q;
               l3 = (if query = ''BEGIN'' then l2\<lparr>inDML := True\<rparr>
                     else if query = ''COMMIT'' then l2\<lparr>inDML := False\<rparr>
                     else l2)
           in if inDML l3 then l3 else saveTxnEndLocation (setCurrentGTID l3 gset))
      | MariadbGTIDEvent isDDL \<Rightarrow>
          (let l2 = setEndPos l1 (LogPos (Header e))
           in if \<not> isDDL then l2\<lparr>inDML := True\<rparr> else l2)
      | GenericEvent \<Rightarrow> setEndPos l1 (LogPos (Header e)))"

text \<open>Feeding a sequence of events, one \<open>update\<close> after the other.\<close>

definition feed :: "'g locationRecorder \<Rightarrow> 'g BinlogEvent list \<Rightarrow> 'g locationRecorder" where
  "feed l es = foldl update l es"

text \<open>The trimmed text of a query event, as \<open>update\<close> reads it.\<close>

definition queryText :: "'g BinlogEvent \<Rightarrow> string option" where
  "queryText e = (case Event e of QueryEvent q gset \<Rightarrow> Some (TrimSpace q) | _ \<Rightarrow> None)"

definition isRotate :: "'g BinlogEvent \<Rightarrow> bool" where
  "isRotate e = (case Event e of RotateEvent p n \<Rightarrow> True | _ \<Rightarrow> False)"

definition endName :: "'g locationRecorder \<Rightarrow> string" where
  "endName l = Name (Position (curEndLocation l))"

definition endPos :: "'g locationRecorder \<Rightarrow> 32 word" where
  "endPos l = Pos (Position (curEndLocation l))"

section \<open>Errors and results\<close>

text \<open>
  An error keeps the structure the juju/errors calls give it: the constructor, the
  format string and its arguments (not rendered), and the error it wraps. \<open>New m\<close> is
  an error known by its message \<open>m\<close> only; \<open>Canceled\<close> is \<open>ctx.Err()\<close>.
\<close>

datatype arg = S string | I int | SL "string list"

datatype error =
    New string
  | Errorf string "arg list"
  | NotFoundf string "arg list"
  | NotValidf string "arg list"
  | Annotatef error string "arg list"
  | Trace error
  | Canceled

text \<open>
  What a call does: it returns values with a nil error (\<open>Ok\<close>), returns a non-nil error
  (\<open>Err\<close>), panics (\<open>Panic\<close>, with the format string and arguments of the message), or
  never returns because it waits on a channel forever (\<open>Blocked\<close>).
\<close>

datatype 'a result = Ok 'a | Err error | Panic string "arg list" | Blocked

text \<open>The layers of context that annotations have put on an error, outermost first.\<close>

fun errorContext :: "error \<Rightarrow> (string \<times> arg list) list" where
  "errorContext (Annotatef e f as) = (f, as) # errorContext e"
| "errorContext (Trace e) = errorContext e"
| "errorContext e = []"

section \<open>String functions of the Go library\<close>

fun Contains :: "string \<Rightarrow> string \<Rightarrow> bool" where
  "Contains [] sub = (sub = [])"
| "Contains (c # s) sub = (prefix sub (c # s) \<or> Contains s sub)"

definition HasSuffix :: "string \<Rightarrow> string \<Rightarrow> bool" where
  "HasSuffix s suf = suffix suf s"

fun Index :: "string \<Rightarrow> string \<Rightarrow> int" where
  "Index [] sub = (if sub = [] then 0 else - 1)"
| "Index (c # s) sub =
     (if prefix sub (c # s) then 0
      else (let i = Index s sub in if i < 0 then - 1 else i + 1))"

definition Base :: "string \<Rightarrow> string" where
  "Base p =
     (if p = [] then ''.''
      else (let q = dropWhile (\<lambda>c. c = CHR ''/'') (rev p);
                b = rev (takeWhile (\<lambda>c. c \<noteq> CHR ''/'') q)
            in if b = [] then ''/'' else b))"

section \<open>The relay log reader\<close>

record binlogFile =
  baseName :: string
  seq :: string

text \<open>What \<open>select\<close> does in the event callback: it sends, it sees the context done, or it waits forever.\<close>

datatype selected = SendCase | DoneCase | NeitherCase

text \<open>What the watcher's channels and the context hand to the goroutine of \<open>relaySubDirUpdated\<close>.\<close>

record watcherEvent =
  Path :: string
  IsDirEvent :: bool
  HasModifyOrCreate :: bool

datatype watched =
    CtxDone
  | ErrorsClosed
  | WatcherError error
  | EventsClosed
  | WatcherEvent watcherEvent

text \<open>
  Everything the reader takes from outside the source file: the helpers of the packages
  \<open>utils\<close> and \<open>streamer\<close> that are declared in other files (with the results Go gives
  them, a value beside an optional error where the caller ignores the error), the path
  functions, the file system, the event parser, the channel and the watcher.
  \<open>ParseFile env path offset\<close> is the list of events the parser hands to its callback and
  the message of the error it returns, if any. \<open>sel env k\<close> is what the \<open>k\<close>-th \<open>select\<close>
  of the stream does.
\<close>

record 'g env =
  ParseSuffixForUUID :: "string \<Rightarrow> string \<times> int \<times> error option"
  SuffixIntToStr :: "int \<Rightarrow> string"
  GetUUIDBySuffix :: "string list \<Rightarrow> string \<Rightarrow> string"
  parseBinlogFile :: "string \<Rightarrow> binlogFile option \<times> error option"
  constructBinlogFilename :: "string \<Rightarrow> string \<Rightarrow> string"
  GetBinlogFileIndex :: "string \<Rightarrow> error option"
  MetaFilename :: string
  Join :: "string \<Rightarrow> string \<Rightarrow> string"
  readDir :: "string \<Rightarrow> string list result"
  Stat :: "string \<Rightarrow> int result"
  ParseFile :: "string \<Rightarrow> int \<Rightarrow> 'g BinlogEvent list \<times> string option"
  sel :: "nat \<Rightarrow> selected"
  watcherAdd :: "string \<Rightarrow> error option"
  watcherStart :: "error option"
  watcherFeed :: "string \<Rightarrow> watched list"

record BinlogReader =
  RelayDir :: string
  indexPath :: string
  uuids :: "string list"

text \<open>
  The state that parsing one file changes: the reader's \<open>latestServerID\<close>, the events the
  stream's channel has passed on (\<open>ch\<close>), the number of sends tried so far (\<open>offers\<close>, the
  index into \<open>sel\<close>), and the variable \<open>latestPos\<close> of \<open>parseFile\<close> that the callback
  assigns.
\<close>

record 'g parseState =
  latestServerID :: "32 word"
  ch :: "'g BinlogEvent list"
  offers :: nat
  latestPos :: int

definition posUUIDSuffixSeparator :: string where
  "posUUIDSuffixSeparator = ''|''"

text \<open>
  Modelled from the spec: the constant \<open>baseSeqSeparator\<close> is declared in another file of
  the package; the spec writes a file name as base, optional \<open>|suffix\<close>, a dot and the sequence.
\<close>

definition baseSeqSeparator :: string where
  "baseSeqSeparator = ''.''"

definition constructBinlogName :: "binlogFile \<Rightarrow> string \<Rightarrow> string" where
  "constructBinlogName originalName uuidSuffix =
     baseName originalName @ posUUIDSuffixSeparator @ uuidSuffix @ baseSeqSeparator @ seq originalName"

text \<open>
  Modelled from the spec: \<open>utils.GenFakeRotateEvent\<close> is declared outside the source
  files. The spec calls its result a synthesized (fake) rotation event, which has a zero
  timestamp and a zero log position and is flagged artificial; the name, the position it
  carries and the server id are the three arguments of the call.
\<close>

definition GenFakeRotateEvent :: "string \<Rightarrow> 64 word \<Rightarrow> 32 word \<Rightarrow> 'g BinlogEvent result" where
  "GenFakeRotateEvent nextLogName logPos serverID =
     Ok \<lparr>Header = \<lparr>Timestamp = 0, EventType = ROTATE_EVENT, ServerID = serverID,
                    LogPos = 0, Flags = LOG_EVENT_ARTIFICIAL_F\<rparr>,
         Event = RotateEvent logPos nextLogName\<rparr>"

text \<open>The \<open>select\<close> at the end of the callback.\<close>

definition send :: "'g env \<Rightarrow> 'g parseState \<Rightarrow> 'g BinlogEvent \<Rightarrow> 'g parseState \<times> unit result" where
  "send env st e =
     (case sel env (offers st) of
        SendCase \<Rightarrow> (st\<lparr>ch := ch st @ [e], offers := Suc (offers st)\<rparr>, Ok ())
      | DoneCase \<Rightarrow> (st\<lparr>offers := Suc (offers st)\<rparr>, Ok ())
      | NeitherCase \<Rightarrow> (st, Blocked))"

text \<open>
  The callback \<open>onEventFunc\<close> of \<open>parseFile\<close>. The error of \<open>parseBinlogFile\<close> is ignored
  there, so that a nil result is dereferenced by \<open>constructBinlogName\<close>; the type
  assertion on the payload of a rotation event has no \<open>ok\<close> and panics on another payload.
\<close>

definition onEventFunc ::
  "'g env \<Rightarrow> string \<Rightarrow> 'g parseState \<Rightarrow> 'g BinlogEvent \<Rightarrow> 'g parseState \<times> unit result" where
  "onEventFunc env uuidSuffix st e =
     (if Flags (Header e) AND 0x0040 \<noteq> 0 then (st, Ok ())
      else
        (let st1 = st\<lparr>latestServerID := ServerID (Header e)\<rparr> in
         case EventType (Header e) of
           FORMAT_DESCRIPTION_EVENT \<Rightarrow> send env st1 e
         | ROTATE_EVENT \<Rightarrow>
             (case Event e of
                RotateEvent p nextLogName \<Rightarrow>
                  (case fst (parseBinlogFile env nextLogName) of
                     None \<Rightarrow> (st1, Panic ''nil pointer dereference'' [])
                   | Some parsed \<Rightarrow>
                       (let nameWithSuffix = constructBinlogName parsed uuidSuffix;
                            e' = e\<lparr>Event := RotateEvent p nameWithSuffix\<rparr>;
                            st2 = (if Timestamp (Header e) \<noteq> 0 \<and> LogPos (Header e) \<noteq> 0
                                   then st1\<lparr>latestPos := uint (LogPos (Header e))\<rparr>
                                   else st1)
                        in send env st2 e'))
              | _ \<Rightarrow> (st1, Panic ''interface conversion'' []))
         | _ \<Rightarrow> send env (st1\<lparr>latestPos := uint (LogPos (Header e))\<rparr>) e))"

text \<open>The parser calling the callback on each event it decodes, in order.\<close>

fun callbacks ::
  "('s \<Rightarrow> 'e \<Rightarrow> 's \<times> unit result) \<Rightarrow> 's \<Rightarrow> 'e list \<Rightarrow> 's \<times> unit result" where
  "callbacks f st [] = (st, Ok ())"
| "callbacks f st (e # es) =
     (case f st e of
        (st', Ok u) \<Rightarrow> callbacks f st' es
      | (st', Err x) \<Rightarrow> (st', Err x)
      | (st', Panic m as) \<Rightarrow> (st', Panic m as)
      | (st', Blocked) \<Rightarrow> (st', Blocked))"

text \<open>
  \<open>check x wrap k\<close> is the Go idiom \<open>v, err := x; if err != nil { return wrap(err) }\<close>
  followed by \<open>k v\<close>. A panic and a wait with no end go up unchanged.
\<close>

definition check :: "'a result \<Rightarrow> (error \<Rightarrow> error) \<Rightarrow> ('a \<Rightarrow> 'b result) \<Rightarrow> 'b result" where
  "check x wrap k =
     (case x of
        Ok v \<Rightarrow> k v
      | Err e \<Rightarrow> Err (wrap e)
      | Panic m as \<Rightarrow> Panic m as
      | Blocked \<Rightarrow> Blocked)"

text \<open>\<open>Stat env path\<close> is the size \<open>os.Stat\<close> reports for the file, or its error.\<close>

definition fileSizeUpdated :: "'g env \<Rightarrow> string \<Rightarrow> int \<Rightarrow> int result" where
  "fileSizeUpdated env path latestSize =
     check (Stat env path) (\<lambda>err. Annotatef err ''get stat for relay log %s'' [S path])
       (\<lambda>currSize.
          if currSize = latestSize then Ok 0
          else if currSize > latestSize then Ok 1
          else Panic ''relay log file size has changed from %d to %d'' [I latestSize, I currSize])"

text \<open>
  The loop of \<open>getNextUUID\<close> runs \<open>i\<close> from \<open>len(r.uuids) - 2\<close> down to 0; \<open>nextUUIDFrom\<close>
  takes \<open>i + 1\<close>. The error of \<open>ParseSuffixForUUID\<close> is ignored there.
\<close>

fun nextUUIDFrom :: "'g env \<Rightarrow> string list \<Rightarrow> string \<Rightarrow> nat \<Rightarrow> string \<times> string" where
  "nextUUIDFrom env us uuid 0 = ([], [])"
| "nextUUIDFrom env us uuid (Suc i) =
     (if us ! i = uuid
      then (let nextUUID = us ! (i + 1);
                suffixInt = fst (snd (ParseSuffixForUUID env nextUUID))
            in (nextUUID, SuffixIntToStr env suffixInt))
      else nextUUIDFrom env us uuid i)"

definition getNextUUID :: "'g env \<Rightarrow> BinlogReader \<Rightarrow> string \<Rightarrow> string \<times> string" where
  "getNextUUID env r uuid = nextUUIDFrom env (uuids r) uuid (length (uuids r) - 1)"

fun firstBinlogName :: "'g env \<Rightarrow> string \<Rightarrow> string list \<Rightarrow> string result" where
  "firstBinlogName env fpath [] = Err (NotFoundf ''binlog files in dir %s'' [S fpath])"
| "firstBinlogName env fpath (f # fs) =
     (if f = MetaFilename env then firstBinlogName env fpath fs
      else (case snd (parseBinlogFile env f) of
              Some err \<Rightarrow> Err (NotValidf ''binlog file %s'' [S f])
            | None \<Rightarrow> Ok f))"

definition getFirstBinlogName :: "'g env \<Rightarrow> BinlogReader \<Rightarrow> string \<Rightarrow> string result" where
  "getFirstBinlogName env r uuid =
     (let fpath = Join env (RelayDir r) uuid in
      check (readDir env fpath) (\<lambda>err. Annotatef err ''get binlog file for dir %s'' [S fpath])
        (firstBinlogName env fpath))"

text \<open>The result is \<open>(needSwitch, needReParse, nextUUID, nextBinlogName)\<close>.\<close>

definition needSwitchSubDir ::
  "'g env \<Rightarrow> BinlogReader \<Rightarrow> string \<Rightarrow> string \<Rightarrow> int \<Rightarrow> (bool \<times> bool \<times> string \<times> string) result" where
  "needSwitchSubDir env r currentUUID latestFilePath latestFileSize =
     (let nextUUID = fst (getNextUUID env r currentUUID) in
      if length nextUUID = 0 then Ok (False, False, [], [])
      else
        check (getFirstBinlogName env r nextUUID) Trace
          (\<lambda>nextBinlogName.
             check (fileSizeUpdated env latestFilePath latestFileSize) Trace
               (\<lambda>cmp.
                  if cmp < 0
                  then Err (Errorf ''file size of relay log %s become smaller'' [S latestFilePath])
                  else if cmp > 0 then Ok (False, True, [], [])
                  else Ok (True, False, nextUUID, nextBinlogName))))"

text \<open>
  The goroutine of \<open>relaySubDirUpdated\<close>, on what its \<open>select\<close> receives in turn. With
  nothing more to receive it waits forever.
\<close>

fun watchLoop :: "'g env \<Rightarrow> string \<Rightarrow> watched list \<Rightarrow> string result" where
  "watchLoop env dir [] = Blocked"
| "watchLoop env dir (CtxDone # ws) = Err Canceled"
| "watchLoop env dir (ErrorsClosed # ws) =
     Err (Errorf ''watcher's errors chan for relay log dir %s closed'' [S dir])"
| "watchLoop env dir (WatcherError err2 # ws) =
     Err (Annotatef err2 ''relay log dir %s'' [S dir])"
| "watchLoop env dir (EventsClosed # ws) =
     Err (Errorf ''watcher's events chan for relay log dir %s closed'' [S dir])"
| "watchLoop env dir (WatcherEvent event # ws) =
     (if IsDirEvent event then watchLoop env dir ws
      else if \<not> HasModifyOrCreate event then watchLoop env dir ws
      else (case GetBinlogFileIndex env (Base (Path event)) of
              Some err2 \<Rightarrow> watchLoop env dir ws
            | None \<Rightarrow> Ok (Path event)))"

definition relaySubDirUpdated :: "'g env \<Rightarrow> string \<Rightarrow> string \<Rightarrow> int \<Rightarrow> string result" where
  "relaySubDirUpdated env dir latestFilePath latestFileSize =
     (case watcherAdd env dir of
        Some err \<Rightarrow> Err (Annotatef err ''add watch for relay log dir %s'' [S dir])
      | None \<Rightarrow>
          (case watcherStart env of
             Some err \<Rightarrow> Err (Trace err)
           | None \<Rightarrow>
               check (fileSizeUpdated env latestFilePath latestFileSize) Trace
                 (\<lambda>cmp.
                    if cmp < 0
                    then Err (Errorf ''file size of relay log %s become smaller'' [S latestFilePath])
                    else if cmp > 0 then Ok latestFilePath
                    else watchLoop env dir (watcherFeed env dir))))"

text \<open>
  \<open>parseFile\<close> in its parts. \<open>sendFakeRotate\<close> is the block under \<open>if firstParse\<close>.
  \<open>parseEvents\<close> is the function up to the return of the parser: it gives the state
  and, when the parser has returned, the message of the parser's error (\<open>perr\<close>).
  \<open>afterParse\<close> is the function from there on, \<open>latest\<close> being the value of
  \<open>latestPos\<close> then. The result of \<open>parseFile\<close> is
  \<open>(needSwitch, needReParse, latestPos, nextUUID, nextBinlogName)\<close>, beside the state.
\<close>

definition sendFakeRotate ::
  "'g env \<Rightarrow> string \<Rightarrow> string \<Rightarrow> int \<Rightarrow> 'g parseState \<Rightarrow> 'g parseState \<times> unit result" where
  "sendFakeRotate env uuidSuffix relayLogFile offset st =
     (case GenFakeRotateEvent relayLogFile (word_of_int offset) (latestServerID st) of
        Ok e \<Rightarrow>
          (case onEventFunc env uuidSuffix st e of
             (st', Err err2) \<Rightarrow> (st', Err (Annotatef err2 ''send event %+v'' []))
           | (st', x) \<Rightarrow> (st', x))
      | Err err2 \<Rightarrow>
          (st, Err (Annotatef err2 ''generate fake RotateEvent for (%s: %d)'' [S relayLogFile, I offset]))
      | Panic m as \<Rightarrow> (st, Panic m as)
      | Blocked \<Rightarrow> (st, Blocked))"

text \<open>
  The test on the parser's error: \<open>None\<close> where \<open>parseFile\<close> goes on (no error, or an
  error whose message contains \<open>err EOF\<close> on a file that is possibly the last), or the
  error it returns.
\<close>

definition parserError :: "bool \<Rightarrow> string option \<Rightarrow> error option" where
  "parserError possibleLast perr =
     (case perr of
        None \<Rightarrow> None
      | Some msg \<Rightarrow>
          if possibleLast \<and> Contains msg ''err EOF'' then None else Some (Trace (New msg)))"

definition afterParse ::
  "'g env \<Rightarrow> BinlogReader \<Rightarrow> string \<Rightarrow> string \<Rightarrow> string \<Rightarrow> string \<Rightarrow> bool \<Rightarrow> int \<Rightarrow> string option
     \<Rightarrow> (bool \<times> bool \<times> int \<times> string \<times> string) result" where
  "afterParse env r relayLogFile relayLogDir fullPath currentUUID possibleLast latest perr =
     (case parserError possibleLast perr of
        Some err \<Rightarrow> Err err
      | None \<Rightarrow>
      if \<not> possibleLast then Ok (False, False, latest, [], [])
      else
        check (needSwitchSubDir env r currentUUID fullPath latest) Trace
          (\<lambda>(needSwitch, needReParse, nextUUID, nextBinlogName).
             if needReParse then Ok (False, True, latest, [], [])
             else if needSwitch then Ok (True, False, 0, nextUUID, nextBinlogName)
             else
               check (relaySubDirUpdated env relayLogDir fullPath latest) Trace
                 (\<lambda>updatedPath.
                    if HasSuffix updatedPath relayLogFile
                    then Ok (False, True, latest, [], [])
                    else Ok (False, False, latest, [], []))))"

definition parseEvents ::
  "'g env \<Rightarrow> 'g parseState \<Rightarrow> string \<Rightarrow> int \<Rightarrow> string \<Rightarrow> bool \<Rightarrow> string
     \<Rightarrow> 'g parseState \<times> string option result" where
  "parseEvents env st relayLogFile offset relayLogDir firstParse currentUUID =
     (case ParseSuffixForUUID env currentUUID of
        (u, suffixInt, Some err) \<Rightarrow> (st, Err (Trace err))
      | (u, suffixInt, None) \<Rightarrow>
          (let uuidSuffix = SuffixIntToStr env suffixInt;
               st0 = st\<lparr>latestPos := offset\<rparr>;
               fullPath = Join env relayLogDir relayLogFile
           in case (if firstParse then sendFakeRotate env uuidSuffix relayLogFile offset st0
                    else (st0, Ok ())) of
                (st1, Ok u1) \<Rightarrow>
                  (case callbacks (onEventFunc env uuidSuffix) st1 (fst (ParseFile env fullPath offset)) of
                     (st2, Ok u2) \<Rightarrow> (st2, Ok (snd (ParseFile env fullPath offset)))
                   | (st2, Err x) \<Rightarrow> (st2, Err x)
                   | (st2, Panic m as) \<Rightarrow> (st2, Panic m as)
                   | (st2, Blocked) \<Rightarrow> (st2, Blocked))
              | (st1, Err x) \<Rightarrow> (st1, Err x)
              | (st1, Panic m as) \<Rightarrow> (st1, Panic m as)
              | (st1, Blocked) \<Rightarrow> (st1, Blocked)))"

definition parseFile ::
  "'g env \<Rightarrow> BinlogReader \<Rightarrow> 'g parseState \<Rightarrow> string \<Rightarrow> int \<Rightarrow> string \<Rightarrow> bool \<Rightarrow> string \<Rightarrow> bool
     \<Rightarrow> 'g parseState \<times> (bool \<times> bool \<times> int \<times> string \<times> string) result" where
  "parseFile env r st relayLogFile offset relayLogDir firstParse currentUUID possibleLast =
     (case parseEvents env st relayLogFile offset relayLogDir firstParse currentUUID of
        (st2, Ok perr) \<Rightarrow>
          (st2, afterParse env r relayLogFile relayLogDir (Join env relayLogDir relayLogFile)
                  currentUUID possibleLast (latestPos st2) perr)
      | (st2, Err x) \<Rightarrow> (st2, Err x)
      | (st2, Panic m as) \<Rightarrow> (st2, Panic m as)
      | (st2, Blocked) \<Rightarrow> (st2, Blocked))"

text \<open>
  \<open>extractPos\<close>; the result is \<open>(uuidWithSuffix, uuidSuffix, realPos)\<close>. The error of
  \<open>parseBinlogFile\<close> is ignored, so that a nil result is dereferenced.
\<close>

definition extractPos ::
  "'g env \<Rightarrow> BinlogReader \<Rightarrow> Position \<Rightarrow> (string \<times> string \<times> Position) result" where
  "extractPos env r pos =
     (if length (uuids r) = 0
      then Err (NotFoundf ''relay sub dir with index file %s'' [S (indexPath r)])
      else case fst (parseBinlogFile env (Name pos)) of
        None \<Rightarrow> Panic ''nil pointer dereference'' []
      | Some parsed \<Rightarrow>
          (let sepIdx = Index (baseName parsed) posUUIDSuffixSeparator in
           if sepIdx > 0 \<and> sepIdx + int (length posUUIDSuffixSeparator) < int (length (baseName parsed))
           then
             (let realBaseName = take (nat sepIdx) (baseName parsed);
                  masterUUIDSuffix =
                    drop (nat (sepIdx + int (length posUUIDSuffixSeparator))) (baseName parsed);
                  uuid = GetUUIDBySuffix env (uuids r) masterUUIDSuffix
              in if length uuid > 0
                 then Ok (uuid, masterUUIDSuffix,
                          \<lparr>Name = constructBinlogFilename env realBaseName (seq parsed), Pos = Pos pos\<rparr>)
                 else Err (NotFoundf ''UUID suffix %s with UUIDs %v'' [S masterUUIDSuffix, SL (uuids r)]))
           else
             (let uuid = uuids r ! (length (uuids r) - 1) in
              case ParseSuffixForUUID env uuid of
                (u, suffixInt, Some err) \<Rightarrow> Err (Trace err)
              | (u, suffixInt, None) \<Rightarrow> Ok (uuid, SuffixIntToStr env suffixInt, pos))))"

section \<open>Example inputs\<close>

text \<open>A recorder at offset 100 of \<open>mysql-bin.000001\<close>, outside a statement-mode transaction.\<close>

definition exampleLocation :: "string Location" where
  "exampleLocation =
     \<lparr>Position = \<lparr>Name = ''mysql-bin.000001'', Pos = 100\<rparr>, gtidSet = ''g0'', Suffix = 0\<rparr>"

definition exampleRecorder :: "string locationRecorder" where
  "exampleRecorder =
     \<lparr>curStartLocation = exampleLocation, curEndLocation = exampleLocation,
      txnEndLocation = exampleLocation, inDML = False\<rparr>"

definition header :: "EventType \<Rightarrow> 32 word \<Rightarrow> 16 word \<Rightarrow> EventHeader" where
  "header t p f = \<lparr>Timestamp = 1, EventType = t, ServerID = 7, LogPos = p, Flags = f\<rparr>"

definition xidAt :: "32 word \<Rightarrow> string BinlogEvent" where
  "xidAt p = \<lparr>Header = header XID_EVENT p 0, Event = XIDEvent ''g1''\<rparr>"

definition queryAt :: "string \<Rightarrow> 32 word \<Rightarrow> 16 word \<Rightarrow> string BinlogEvent" where
  "queryAt q p f = \<lparr>Header = header QUERY_EVENT p f, Event = QueryEvent q ''g2''\<rparr>"

definition rotateTo :: "string \<Rightarrow> 32 word \<Rightarrow> 16 word \<Rightarrow> string BinlogEvent" where
  "rotateTo n p f = \<lparr>Header = header ROTATE_EVENT p f, Event = RotateEvent 4 n\<rparr>"

text \<open>
  A relay directory \<open>relay\<close> with the epochs \<open>u1\<close> and \<open>u2\<close>, and helpers that behave on
  these names as the spec describes them: suffix 1 and 2, written with six digits, and a
  file name split at its only dot.
\<close>

definition exampleParseSuffixForUUID :: "string \<Rightarrow> string \<times> int \<times> error option" where
  "exampleParseSuffixForUUID u =
     (if u = ''u1'' then (''u1'', 1, None)
      else if u = ''u2'' then (''u2'', 2, None)
      else ([], 0, Some (NotValidf ''UUID (with suffix) %s'' [S u])))"

definition exampleSuffixIntToStr :: "int \<Rightarrow> string" where
  "exampleSuffixIntToStr n = (if n = 1 then ''000001'' else if n = 2 then ''000002'' else ''000000'')"

definition exampleParseBinlogFile :: "string \<Rightarrow> binlogFile option \<times> error option" where
  "exampleParseBinlogFile f =
     (let b = takeWhile (\<lambda>c. c \<noteq> CHR ''.'') f; rest = dropWhile (\<lambda>c. c \<noteq> CHR ''.'') f in
      if rest = [] \<or> CHR ''.'' \<in> set (tl rest) then (None, Some (New ''invalid binlog filename''))
      else (Some \<lparr>baseName = b, seq = tl rest\<rparr>, None))"

definition exampleEnv :: "string env" where
  "exampleEnv =
     \<lparr>ParseSuffixForUUID = exampleParseSuffixForUUID,
      SuffixIntToStr = exampleSuffixIntToStr,
      GetUUIDBySuffix = (\<lambda>us s. case find (\<lambda>u. suffix (''.'' @ s) u) us of None \<Rightarrow> [] | Some u \<Rightarrow> u),
      parseBinlogFile = exampleParseBinlogFile,
      constructBinlogFilename = (\<lambda>b s. b @ ''.'' @ s),
      GetBinlogFileIndex = (\<lambda>f. snd (exampleParseBinlogFile f)),
      MetaFilename = ''relay.meta'',
      Join = (\<lambda>a b. a @ ''/'' @ b),
      readDir = (\<lambda>d. if d = ''relay/u1'' then Ok [''mysql-bin.000003'', ''relay.meta'']
                      else if d = ''relay/u2'' then Ok [''relay.meta'', ''mysql-bin.000001'']
                      else Err (New ''no such directory'')),
      Stat = (\<lambda>p. if p = ''relay/u1/mysql-bin.000003'' then Ok 1500 else Err (New ''no such file'')),
      ParseFile = (\<lambda>p off. ([], None)),
      sel = (\<lambda>k. SendCase),
      watcherAdd = (\<lambda>d. None),
      watcherStart = None,
      watcherFeed = (\<lambda>d. [])\<rparr>"

definition exampleReader :: BinlogReader where
  "exampleReader = \<lparr>RelayDir = ''relay'', indexPath = ''relay/server-uuid.index'', uuids = [''u1'', ''u2'']\<rparr>"

definition exampleState :: "string parseState" where
  "exampleState = \<lparr>latestServerID = 7, ch = [], offers = 0, latestPos = 0\<rparr>"

text \<open>
  A parser that hands over one XID event and then fails with the given message, and the
  state after that event.
\<close>

definition exampleEOF :: string where
  "exampleEOF = ''get event header err EOF, need 19 but got 3''"

definition exampleParserEnv :: "string \<Rightarrow> string env" where
  "exampleParserEnv msg = exampleEnv\<lparr>ParseFile := (\<lambda>p off. ([xidAt 1300], Some msg))\<rparr>"

definition exampleParsedState :: "string parseState" where
  "exampleParsedState = \<lparr>latestServerID = 7, ch = [xidAt 1300], offers = 1, latestPos = 1300\<rparr>"

section \<open>Facts used by the proofs\<close>

lemma feed_Nil: "feed l [] = l"
  by (simp add: feed_def)

lemma feed_Cons: "feed l (e # es) = feed (update l e) es"
  by (simp add: feed_def)

lemma feed_snoc: "feed l (es @ [e]) = update (feed l es) e"
  by (simp add: feed_def)

lemma update_end_exact:
  "(\<not> shouldUpdatePos e \<longrightarrow>
      endName (update l e) = endName l \<and> endPos (update l e) = endPos l)
   \<and> (shouldUpdatePos e \<and> Event e = RotateEvent p n \<longrightarrow>
      endName (update l e) = n
      \<and> endPos (update l e) = (if endName l = n then endPos l else FileHeaderLen))
   \<and> (shouldUpdatePos e \<and> \<not> isRotate e \<longrightarrow>
      endName (update l e) = endName l \<and> endPos (update l e) = LogPos (Header e))"
  by (cases "Event e")
     (auto simp: update_def Let_def saveTxnEndLocation_def setCurrentGTID_def setEndName_def
        setEndPos_def Clone_def SetGTID_def endName_def endPos_def isRotate_def)

lemma begin_step:
  assumes "queryText b = Some ''BEGIN''" and "shouldUpdatePos b"
  shows "inDML (update l b) \<and> txnEndLocation (update l b) = txnEndLocation l"
  using assms by (cases "Event b") (auto simp: update_def Let_def queryText_def setEndPos_def)

lemma middle_step:
  assumes "queryText m = Some t" and "t \<noteq> ''COMMIT''" and "inDML l"
  shows "inDML (update l m) \<and> txnEndLocation (update l m) = txnEndLocation l"
  using assms by (cases "Event m") (auto simp: update_def Let_def queryText_def setEndPos_def)

lemma commit_step:
  assumes "queryText c = Some ''COMMIT''" and "shouldUpdatePos c"
  shows "txnEndLocation (update l c) = Clone (curEndLocation (update l c))"
  using assms
  by (cases "Event c")
     (auto simp: update_def Let_def queryText_def setEndPos_def saveTxnEndLocation_def
        setCurrentGTID_def)

lemma middle_steps:
  assumes "\<forall>m \<in> set ms. \<exists>t. queryText m = Some t \<and> t \<noteq> ''COMMIT''" and "inDML l"
  shows "inDML (feed l ms) \<and> txnEndLocation (feed l ms) = txnEndLocation l"
  using assms
proof (induction ms arbitrary: l)
  case Nil
  then show ?case by (simp add: feed_Nil)
next
  case (Cons m ms)
  then obtain t where t: "queryText m = Some t" "t \<noteq> ''COMMIT''"
    by auto
  have step: "inDML (update l m)" "txnEndLocation (update l m) = txnEndLocation l"
    using middle_step[OF t Cons.prems(2)] by auto
  show ?case
    using Cons.IH[of "update l m"] Cons.prems(1) step by (simp add: feed_Cons)
qed

section \<open>The location recorder\<close>

text \<open>
  C8. For every location \<open>loc\<close> and every recorder, \<open>reset\<close> makes \<open>curStartLocation\<close>,
  \<open>curEndLocation\<close> and \<open>txnEndLocation\<close> equal to \<open>loc\<close> and leaves \<open>inDML\<close> as it was.
\<close>

theorem reset_sets_locations_keeps_inDML:
  "curStartLocation (reset l loc) = loc \<and> curEndLocation (reset l loc) = loc
   \<and> txnEndLocation (reset l loc) = loc \<and> inDML (reset l loc) = inDML l"
  by (simp add: reset_def)

text \<open>
  C1, as stated, fails: \<open>update\<close> copies the event's \<open>LogPos\<close> into the end offset, whatever
  the offset was. From offset 100, an XID event with \<open>LogPos\<close> 50 keeps the file name and
  lowers the offset to 50.
\<close>

theorem update_lowers_offset_in_same_file:
  "endName (feed exampleRecorder [xidAt 50]) = endName (feed exampleRecorder [])
   \<and> endPos (feed exampleRecorder []) = 100
   \<and> endPos (feed exampleRecorder [xidAt 50]) = 50"
  by (simp add: feed_Nil feed_Cons update_def Let_def shouldUpdatePos_def saveTxnEndLocation_def
        setCurrentGTID_def setEndName_def setEndPos_def Clone_def SetGTID_def queryText_def
        isRotate_def endName_def endPos_def exampleLocation_def exampleRecorder_def header_def xidAt_def
        queryAt_def rotateTo_def LOG_EVENT_ARTIFICIAL_F_def)

text \<open>
  C1, amended. For every sequence of events \<open>es\<close> fed to the recorder and every next event
  \<open>e\<close>, what \<open>update\<close> does to the end location's file name and offset is this. An event
  that \<open>shouldUpdatePos\<close> rejects changes neither. An accepted rotation event to the name
  the end location has changes neither; to another name it sets that name and the
  file-header length. Every other accepted event keeps the file name and sets the offset to
  its \<open>LogPos\<close>. So the file name changes only on an accepted rotation event, the offset
  then being the file-header length; and while the file name stays, the offset decreases
  only on an accepted event that is no rotation event and whose \<open>LogPos\<close> is below it.
\<close>

theorem update_end_position:
  "(\<not> shouldUpdatePos e \<longrightarrow>
      endName (feed l (es @ [e])) = endName (feed l es)
      \<and> endPos (feed l (es @ [e])) = endPos (feed l es))
   \<and> (shouldUpdatePos e \<and> Event e = RotateEvent p n \<longrightarrow>
      endName (feed l (es @ [e])) = n
      \<and> endPos (feed l (es @ [e])) = (if endName (feed l es) = n then endPos (feed l es) else FileHeaderLen))
   \<and> (shouldUpdatePos e \<and> \<not> isRotate e \<longrightarrow>
      endName (feed l (es @ [e])) = endName (feed l es)
      \<and> endPos (feed l (es @ [e])) = LogPos (Header e))
   \<and> (endName (feed l (es @ [e])) \<noteq> endName (feed l es) \<longrightarrow>
      shouldUpdatePos e \<and> isRotate e \<and> endPos (feed l (es @ [e])) = FileHeaderLen)
   \<and> (endName (feed l (es @ [e])) = endName (feed l es)
        \<and> endPos (feed l (es @ [e])) < endPos (feed l es) \<longrightarrow>
      shouldUpdatePos e \<and> \<not> isRotate e \<and> LogPos (Header e) < endPos (feed l es))"
proof -
  note x = update_end_exact[of e "feed l es"]
  have r: "isRotate e \<longleftrightarrow> (\<exists>p n. Event e = RotateEvent p n)"
    by (cases "Event e") (simp_all add: isRotate_def)
  show ?thesis
  proof (cases "shouldUpdatePos e")
    case False
    with x show ?thesis by (simp add: feed_snoc)
  next
    case True
    show ?thesis
    proof (cases "isRotate e")
      case False
      with True x r show ?thesis by (auto simp: feed_snoc)
    next
      case rot: True
      then obtain p' n' where e: "Event e = RotateEvent p' n'"
        using r by blast
      from update_end_exact[of e "feed l es" p' n'] True e rot
      show ?thesis by (auto simp: feed_snoc)
    qed
  qed
qed

text \<open>
  After an XID event at 150: a heartbeat with \<open>LogPos\<close> 0, an XID event at 120, a rotation
  to the next file and a rotation to the same file.
\<close>

theorem update_end_position_witness:
  "\<not> shouldUpdatePos \<lparr>Header = header HEARTBEAT_EVENT 0 0, Event = GenericEvent :: string Event\<rparr>
   \<and> endPos (feed exampleRecorder [xidAt 150]) = 150
   \<and> endPos (feed exampleRecorder ([xidAt 150]
         @ [\<lparr>Header = header HEARTBEAT_EVENT 0 0, Event = GenericEvent\<rparr>])) = 150
   \<and> shouldUpdatePos (xidAt 120) \<and> \<not> isRotate (xidAt 120)
   \<and> endName (feed exampleRecorder ([xidAt 150] @ [xidAt 120])) = endName (feed exampleRecorder [xidAt 150])
   \<and> endPos (feed exampleRecorder ([xidAt 150] @ [xidAt 120])) = 120
   \<and> shouldUpdatePos (rotateTo ''mysql-bin.000002'' 0 0)
   \<and> endName (feed exampleRecorder ([xidAt 150] @ [rotateTo ''mysql-bin.000002'' 0 0])) = ''mysql-bin.000002''
   \<and> endPos (feed exampleRecorder ([xidAt 150] @ [rotateTo ''mysql-bin.000002'' 0 0])) = 4
   \<and> endName (feed exampleRecorder ([xidAt 150] @ [rotateTo ''mysql-bin.000001'' 0 0])) = ''mysql-bin.000001''
   \<and> endPos (feed exampleRecorder ([xidAt 150] @ [rotateTo ''mysql-bin.000001'' 0 0])) = 150"
proof -
  have a: "\<not> shouldUpdatePos \<lparr>Header = header HEARTBEAT_EVENT 0 0, Event = GenericEvent :: string Event\<rparr>"
    "shouldUpdatePos (xidAt 120)" "\<not> isRotate (xidAt 120)"
    "shouldUpdatePos (rotateTo ''mysql-bin.000002'' 0 0)"
    "shouldUpdatePos (rotateTo ''mysql-bin.000001'' 0 0)"
    "Event (rotateTo ''mysql-bin.000002'' 0 0) = RotateEvent 4 ''mysql-bin.000002''"
    "Event (rotateTo ''mysql-bin.000001'' 0 0) = RotateEvent 4 ''mysql-bin.000001''"
    "LogPos (Header (xidAt 120)) = 120"
    by (simp_all add: shouldUpdatePos_def isRotate_def header_def xidAt_def rotateTo_def
          LOG_EVENT_ARTIFICIAL_F_def)
  have b: "endPos (feed exampleRecorder [xidAt 150]) = 150"
    "endName (feed exampleRecorder [xidAt 150]) = ''mysql-bin.000001''"
    by (simp_all add: feed_Nil feed_Cons update_def Let_def shouldUpdatePos_def
          saveTxnEndLocation_def setCurrentGTID_def setEndPos_def Clone_def SetGTID_def
          endName_def endPos_def exampleLocation_def exampleRecorder_def header_def xidAt_def
          LOG_EVENT_ARTIFICIAL_F_def)
  show ?thesis
    using a b
      update_end_position[where l = exampleRecorder and es = "[xidAt 150]"
        and e = "\<lparr>Header = header HEARTBEAT_EVENT 0 0, Event = GenericEvent\<rparr>"]
      update_end_position[where l = exampleRecorder and es = "[xidAt 150]" and e = "xidAt 120"]
      update_end_position[where l = exampleRecorder and es = "[xidAt 150]"
        and e = "rotateTo ''mysql-bin.000002'' 0 0" and p = 4 and n = "''mysql-bin.000002''"]
      update_end_position[where l = exampleRecorder and es = "[xidAt 150]"
        and e = "rotateTo ''mysql-bin.000001'' 0 0" and p = 4 and n = "''mysql-bin.000001''"]
    by (simp add: FileHeaderLen_def)
qed

text \<open>
  C2, as stated, fails: a \<open>BEGIN\<close> query event flagged artificial is not looked at
  (\<open>shouldUpdatePos\<close>), so that \<open>inDML\<close> stays false and the next query event, which is not
  \<open>COMMIT\<close>, moves \<open>txnEndLocation\<close> from offset 100 to offset 200.
\<close>

theorem artificial_begin_moves_txnEnd:
  "queryText (queryAt ''BEGIN'' 120 0x20) = Some ''BEGIN''
   \<and> queryText (queryAt ''INSERT INTO t VALUES (1)'' 200 0) = Some ''INSERT INTO t VALUES (1)''
   \<and> Pos (Position (txnEndLocation exampleRecorder)) = 100
   \<and> Pos (Position (txnEndLocation (feed exampleRecorder [queryAt ''BEGIN'' 120 0x20]))) = 100
   \<and> Pos (Position (txnEndLocation (feed exampleRecorder
         [queryAt ''BEGIN'' 120 0x20, queryAt ''INSERT INTO t VALUES (1)'' 200 0]))) = 200"
  by (simp add: feed_Nil feed_Cons update_def Let_def shouldUpdatePos_def saveTxnEndLocation_def
        setCurrentGTID_def setEndName_def setEndPos_def Clone_def SetGTID_def queryText_def
        isRotate_def endName_def endPos_def exampleLocation_def exampleRecorder_def header_def xidAt_def
        queryAt_def rotateTo_def TrimSpace_def isSpace1_def isSpace2_def isSpace3_def LOG_EVENT_ARTIFICIAL_F_def)

text \<open>
  C2, amended. For a query event \<open>b\<close> with trimmed text \<open>BEGIN\<close>, query events \<open>ms\<close> whose
  trimmed text is not \<open>COMMIT\<close>, and a query event \<open>c\<close> with trimmed text \<open>COMMIT\<close>, where
  \<open>shouldUpdatePos\<close> accepts \<open>b\<close> and \<open>c\<close>: \<open>txnEndLocation\<close> is unchanged after \<open>b\<close> and
  after each event of \<open>ms\<close>, and after \<open>c\<close> it is the clone of \<open>curEndLocation\<close>.
\<close>

theorem begin_commit_txnEnd:
  assumes "queryText b = Some ''BEGIN''" and "shouldUpdatePos b"
    and "\<forall>m \<in> set ms. \<exists>t. queryText m = Some t \<and> t \<noteq> ''COMMIT''"
    and "queryText c = Some ''COMMIT''" and "shouldUpdatePos c"
  shows "(\<forall>k \<le> length ms. txnEndLocation (feed l (b # take k ms)) = txnEndLocation l)
     \<and> txnEndLocation (feed l (b # ms @ [c])) = Clone (curEndLocation (feed l (b # ms @ [c])))"
proof
  have b: "inDML (update l b)" "txnEndLocation (update l b) = txnEndLocation l"
    using begin_step[OF assms(1,2)] by auto
  show "\<forall>k \<le> length ms. txnEndLocation (feed l (b # take k ms)) = txnEndLocation l"
  proof (intro allI impI)
    fix k
    have "\<forall>m \<in> set (take k ms). \<exists>t. queryText m = Some t \<and> t \<noteq> ''COMMIT''"
      using assms(3) by (meson in_set_takeD)
    from middle_steps[OF this b(1)] b(2)
    show "txnEndLocation (feed l (b # take k ms)) = txnEndLocation l"
      by (simp add: feed_Cons)
  qed
  have "feed l (b # ms @ [c]) = update (feed l (b # ms)) c"
    using feed_snoc[of l "b # ms" c] by simp
  then show "txnEndLocation (feed l (b # ms @ [c])) = Clone (curEndLocation (feed l (b # ms @ [c])))"
    using commit_step[OF assms(4,5)] by simp
qed

theorem begin_commit_txnEnd_witness:
  "queryText (queryAt '' BEGIN'' 120 0) = Some ''BEGIN''
   \<and> shouldUpdatePos (queryAt '' BEGIN'' 120 0)
   \<and> queryText (queryAt ''INSERT INTO t VALUES (1)'' 200 0) = Some ''INSERT INTO t VALUES (1)''
   \<and> queryText (queryAt ''COMMIT '' 300 0) = Some ''COMMIT''
   \<and> shouldUpdatePos (queryAt ''COMMIT '' 300 0)
   \<and> txnEndLocation (feed exampleRecorder [queryAt '' BEGIN'' 120 0]) = txnEndLocation exampleRecorder
   \<and> txnEndLocation (feed exampleRecorder
        [queryAt '' BEGIN'' 120 0, queryAt ''INSERT INTO t VALUES (1)'' 200 0])
       = txnEndLocation exampleRecorder
   \<and> txnEndLocation (feed exampleRecorder
        [queryAt '' BEGIN'' 120 0, queryAt ''INSERT INTO t VALUES (1)'' 200 0, queryAt ''COMMIT '' 300 0])
       = Clone (curEndLocation (feed exampleRecorder
        [queryAt '' BEGIN'' 120 0, queryAt ''INSERT INTO t VALUES (1)'' 200 0, queryAt ''COMMIT '' 300 0]))
   \<and> Pos (Position (txnEndLocation (feed exampleRecorder
        [queryAt '' BEGIN'' 120 0, queryAt ''INSERT INTO t VALUES (1)'' 200 0, queryAt ''COMMIT '' 300 0]))) = 300"
proof -
  have h1: "queryText (queryAt '' BEGIN'' 120 0) = Some ''BEGIN''"
    by (simp add: queryText_def queryAt_def TrimSpace_def isSpace1_def isSpace2_def isSpace3_def)
  have h2: "shouldUpdatePos (queryAt '' BEGIN'' 120 0)"
    by (simp add: shouldUpdatePos_def queryAt_def header_def LOG_EVENT_ARTIFICIAL_F_def)
  have h3: "\<forall>m \<in> set [queryAt ''INSERT INTO t VALUES (1)'' 200 0].
      \<exists>t. queryText m = Some t \<and> t \<noteq> ''COMMIT''"
    by (simp add: queryText_def queryAt_def TrimSpace_def isSpace1_def isSpace2_def isSpace3_def)
  have h4: "queryText (queryAt ''COMMIT '' 300 0) = Some ''COMMIT''"
    by (simp add: queryText_def queryAt_def TrimSpace_def isSpace1_def isSpace2_def isSpace3_def)
  have h5: "shouldUpdatePos (queryAt ''COMMIT '' 300 0)"
    by (simp add: shouldUpdatePos_def queryAt_def header_def LOG_EVENT_ARTIFICIAL_F_def)
  have q: "queryText (queryAt ''INSERT INTO t VALUES (1)'' 200 0) = Some ''INSERT INTO t VALUES (1)''"
    by (simp add: queryText_def queryAt_def TrimSpace_def isSpace1_def isSpace2_def isSpace3_def)
  note t = begin_commit_txnEnd[OF h1 h2 h3 h4 h5, of exampleRecorder]
  from t have k0: "txnEndLocation (feed exampleRecorder (queryAt '' BEGIN'' 120 0
       # take 0 [queryAt ''INSERT INTO t VALUES (1)'' 200 0])) = txnEndLocation exampleRecorder"
    by blast
  from t have k1: "txnEndLocation (feed exampleRecorder (queryAt '' BEGIN'' 120 0
       # take 1 [queryAt ''INSERT INTO t VALUES (1)'' 200 0])) = txnEndLocation exampleRecorder"
    by (metis length_Cons list.size(3) One_nat_def le_refl)
  have p: "Pos (Position (curEndLocation (feed exampleRecorder
        [queryAt '' BEGIN'' 120 0, queryAt ''INSERT INTO t VALUES (1)'' 200 0, queryAt ''COMMIT '' 300 0]))) = 300"
    by (simp add: feed_Nil feed_Cons update_def Let_def shouldUpdatePos_def saveTxnEndLocation_def
        setCurrentGTID_def setEndName_def setEndPos_def Clone_def SetGTID_def queryText_def
        isRotate_def endName_def endPos_def exampleLocation_def exampleRecorder_def header_def xidAt_def
        queryAt_def rotateTo_def TrimSpace_def isSpace1_def isSpace2_def isSpace3_def LOG_EVENT_ARTIFICIAL_F_def)
  from t k0 k1 h1 h2 h4 h5 q p show ?thesis
    by (simp add: Clone_def)
qed

section \<open>The relay log reader\<close>

lemma Index_absent: "c \<notin> set s \<Longrightarrow> Index s [c] = - 1"
  by (induction s) (auto simp: Let_def)



text \<open>
  C7. For every path and last-known size, where \<open>os.Stat\<close> gives the file's current size:
  \<open>fileSizeUpdated\<close> returns 0 when the sizes are equal and 1 when the current size is
  larger, and panics when it is smaller; whatever \<open>os.Stat\<close> gives, a value it returns
  with a nil error is 0 or 1, never negative.
\<close>

theorem fileSizeUpdated_three_way:
  "(Stat env path = Ok currSize \<longrightarrow>
      fileSizeUpdated env path latestSize =
        (if currSize = latestSize then Ok 0
         else if latestSize < currSize then Ok 1
         else Panic ''relay log file size has changed from %d to %d'' [I latestSize, I currSize]))
   \<and> (\<forall>v. fileSizeUpdated env path latestSize = Ok v \<longrightarrow> v = 0 \<or> v = 1)"
  by (auto simp: fileSizeUpdated_def check_def split: result.splits if_splits)

text \<open>
  The three cases on the example file of size 1500.
\<close>

theorem fileSizeUpdated_three_way_witness:
  "Stat exampleEnv ''relay/u1/mysql-bin.000003'' = Ok 1500
   \<and> fileSizeUpdated exampleEnv ''relay/u1/mysql-bin.000003'' 1500 = Ok 0
   \<and> fileSizeUpdated exampleEnv ''relay/u1/mysql-bin.000003'' 1000 = Ok 1
   \<and> fileSizeUpdated exampleEnv ''relay/u1/mysql-bin.000003'' 2000
       = Panic ''relay log file size has changed from %d to %d'' [I 2000, I 1500]"
proof -
  have s: "Stat exampleEnv ''relay/u1/mysql-bin.000003'' = Ok 1500"
    by (simp add: exampleEnv_def)
  show ?thesis
    using s fileSizeUpdated_three_way[of exampleEnv "''relay/u1/mysql-bin.000003''" 1500 1500]
      fileSizeUpdated_three_way[of exampleEnv "''relay/u1/mysql-bin.000003''" 1500 1000]
      fileSizeUpdated_three_way[of exampleEnv "''relay/u1/mysql-bin.000003''" 1500 2000]
    by simp
qed

lemma callbacks_append:
  "callbacks f st (xs @ ys) =
     (case callbacks f st xs of
        (st', Ok u) \<Rightarrow> callbacks f st' ys
      | (st', Err x) \<Rightarrow> (st', Err x)
      | (st', Panic m as) \<Rightarrow> (st', Panic m as)
      | (st', Blocked) \<Rightarrow> (st', Blocked))"
  by (induction xs arbitrary: st) (auto split: prod.splits result.splits)

text \<open>
  C9. For every event whose header flags have bit 0x0040 set, the callback returns nil and
  leaves the state as it was: the channel, \<open>latestServerID\<close> and \<open>latestPos\<close>. So the
  parser's run over a list of events with such an event in it ends as its run over the list
  without it.
\<close>

theorem relay_writer_event_skipped:
  assumes "Flags (Header e) AND 0x0040 \<noteq> 0"
  shows "onEventFunc env uuidSuffix st e = (st, Ok ())
     \<and> callbacks (onEventFunc env uuidSuffix) st (xs @ e # ys)
         = callbacks (onEventFunc env uuidSuffix) st (xs @ ys)"
proof -
  have one: "\<And>s. onEventFunc env uuidSuffix s e = (s, Ok ())"
    using assms by (simp add: onEventFunc_def)
  then show ?thesis
    by (simp add: callbacks_append split: prod.splits result.splits)
qed

text \<open>
  A query event flagged 0x0040 between other events.
\<close>

theorem relay_writer_event_skipped_witness:
  "Flags (Header (queryAt ''x'' 1400 0x40)) AND 0x0040 \<noteq> 0
   \<and> onEventFunc exampleEnv ''000001'' exampleState (queryAt ''x'' 1400 0x40) = (exampleState, Ok ())
   \<and> callbacks (onEventFunc exampleEnv ''000001'') exampleState ([xidAt 1300] @ queryAt ''x'' 1400 0x40 # [])
       = callbacks (onEventFunc exampleEnv ''000001'') exampleState ([xidAt 1300] @ [])"
proof -
  have h: "Flags (Header (queryAt ''x'' 1400 0x40)) AND 0x0040 \<noteq> 0"
    by (simp add: queryAt_def header_def)
  from h relay_writer_event_skipped[OF h, where env = exampleEnv and uuidSuffix = "''000001''"
    and st = exampleState and xs = "[xidAt 1300]" and ys = "[]"]
  show ?thesis by blast
qed




lemma example_parse_names:
  "parseBinlogFile exampleEnv ''mysql-bin.000003''
     = (Some \<lparr>baseName = ''mysql-bin'', seq = ''000003''\<rparr>, None)"
  "parseBinlogFile exampleEnv ''|mysql-bin.000003''
     = (Some \<lparr>baseName = ''|mysql-bin'', seq = ''000003''\<rparr>, None)"
  "fst (parseBinlogFile exampleEnv ''mysql-bin'') = None"
  by (simp_all add: exampleEnv_def exampleParseBinlogFile_def)

lemma example_suffixes:
  "ParseSuffixForUUID exampleEnv ''u2'' = (''u2'', 2, None)"
  "ParseSuffixForUUID exampleEnv ''bad'' = ([], 0, Some (NotValidf ''UUID (with suffix) %s'' [S ''bad'']))"
  "SuffixIntToStr exampleEnv 2 = ''000002''"
  by (simp_all add: exampleEnv_def exampleParseSuffixForUUID_def exampleSuffixIntToStr_def)

text \<open>
  C5, as stated, fails: a position whose filename carries no epoch suffix is not always bound
  to the last UUID of the index. With the index \<open>u1, bad\<close>, whose last entry
  \<open>ParseSuffixForUUID\<close> rejects, \<open>extractPos\<close> of \<open>mysql-bin.000003\<close> returns that error,
  traced, and binds nothing; and for the name \<open>mysql-bin\<close>, for which \<open>parseBinlogFile\<close>
  returns nil, \<open>extractPos\<close> dereferences the nil (its error is discarded) and panics.
\<close>

theorem suffixless_position_not_bound:
  "extractPos exampleEnv (exampleReader\<lparr>uuids := [''u1'', ''bad'']\<rparr>)
       \<lparr>Name = ''mysql-bin.000003'', Pos = 1234\<rparr>
     = Err (Trace (NotValidf ''UUID (with suffix) %s'' [S ''bad'']))
   \<and> extractPos exampleEnv exampleReader \<lparr>Name = ''mysql-bin'', Pos = 1234\<rparr>
     = Panic ''nil pointer dereference'' []"
  by (simp add: extractPos_def Let_def posUUIDSuffixSeparator_def example_parse_names
        example_suffixes exampleReader_def)

text \<open>
  C5, amended. With an empty UUID index \<open>extractPos\<close> returns the not-found error naming the
  index file, whatever the position (and so binds no epoch). With a non-empty index:
  if \<open>parseBinlogFile\<close> returns nil for the filename, \<open>extractPos\<close> panics on the nil;
  if the filename parses and its base name carries no epoch suffix, which the code tests as
  the first separator \<open>|\<close> being absent, the first character, or the last character of the
  base name, then \<open>extractPos\<close> asks \<open>ParseSuffixForUUID\<close> for the suffix of the last UUID of
  the index: when that succeeds the result is the last UUID, its suffix as a string, and the
  position unchanged; when that fails the result is that error, traced. A base name without
  any \<open>|\<close> is such a name.
\<close>

theorem extractPos_without_suffix:
  "(uuids r = [] \<longrightarrow>
      extractPos env r pos = Err (NotFoundf ''relay sub dir with index file %s'' [S (indexPath r)]))
   \<and> (uuids r \<noteq> [] \<and> fst (parseBinlogFile env (Name pos)) = None \<longrightarrow>
      extractPos env r pos = Panic ''nil pointer dereference'' [])
   \<and> (uuids r \<noteq> [] \<and> fst (parseBinlogFile env (Name pos)) = Some parsed
        \<and> (Index (baseName parsed) posUUIDSuffixSeparator \<le> 0
             \<or> int (length (baseName parsed))
                 \<le> Index (baseName parsed) posUUIDSuffixSeparator
                     + int (length posUUIDSuffixSeparator)) \<longrightarrow>
      (ParseSuffixForUUID env (last (uuids r)) = (u, suffixInt, None) \<longrightarrow>
         extractPos env r pos = Ok (last (uuids r), SuffixIntToStr env suffixInt, pos))
      \<and> (ParseSuffixForUUID env (last (uuids r)) = (u, suffixInt, Some err) \<longrightarrow>
         extractPos env r pos = Err (Trace err)))
   \<and> (CHR ''|'' \<notin> set (baseName parsed) \<longrightarrow>
      Index (baseName parsed) posUUIDSuffixSeparator \<le> 0)"
  by (auto simp: extractPos_def Let_def posUUIDSuffixSeparator_def Index_absent last_conv_nth)

text \<open>
  The position at offset 1234 with an empty index; \<open>mysql-bin.000003\<close> and
  \<open>|mysql-bin.000003\<close> (a separator at the first character) with the index \<open>u1, u2\<close>;
  \<open>mysql-bin.000003\<close> with the index \<open>u1, bad\<close>; and the unparsable name \<open>mysql-bin\<close>.
\<close>

theorem extractPos_without_suffix_witness:
  "extractPos exampleEnv (exampleReader\<lparr>uuids := []\<rparr>) \<lparr>Name = ''mysql-bin.000003'', Pos = 1234\<rparr>
       = Err (NotFoundf ''relay sub dir with index file %s'' [S ''relay/server-uuid.index''])
   \<and> fst (parseBinlogFile exampleEnv ''mysql-bin.000003'')
       = Some \<lparr>baseName = ''mysql-bin'', seq = ''000003''\<rparr>
   \<and> CHR ''|'' \<notin> set ''mysql-bin''
   \<and> ParseSuffixForUUID exampleEnv (last (uuids exampleReader)) = (''u2'', 2, None)
   \<and> extractPos exampleEnv exampleReader \<lparr>Name = ''mysql-bin.000003'', Pos = 1234\<rparr>
       = Ok (''u2'', ''000002'', \<lparr>Name = ''mysql-bin.000003'', Pos = 1234\<rparr>)
   \<and> Index ''|mysql-bin'' posUUIDSuffixSeparator = 0
   \<and> extractPos exampleEnv exampleReader \<lparr>Name = ''|mysql-bin.000003'', Pos = 1234\<rparr>
       = Ok (''u2'', ''000002'', \<lparr>Name = ''|mysql-bin.000003'', Pos = 1234\<rparr>)
   \<and> extractPos exampleEnv (exampleReader\<lparr>uuids := [''u1'', ''bad'']\<rparr>)
         \<lparr>Name = ''mysql-bin.000003'', Pos = 1234\<rparr>
       = Err (Trace (NotValidf ''UUID (with suffix) %s'' [S ''bad'']))
   \<and> extractPos exampleEnv exampleReader \<lparr>Name = ''mysql-bin'', Pos = 1234\<rparr>
       = Panic ''nil pointer dereference'' []"
proof -
  have u: "uuids exampleReader = [''u1'', ''u2'']" "indexPath exampleReader = ''relay/server-uuid.index''"
    by (simp_all add: exampleReader_def)
  have i: "Index ''|mysql-bin'' posUUIDSuffixSeparator = 0" "Index ''mysql-bin'' posUUIDSuffixSeparator \<le> 0"
    by (simp_all add: posUUIDSuffixSeparator_def Let_def)
  note p = example_parse_names
  note q = example_suffixes
  have 0: "extractPos exampleEnv (exampleReader\<lparr>uuids := []\<rparr>) \<lparr>Name = ''mysql-bin.000003'', Pos = 1234\<rparr>
       = Err (NotFoundf ''relay sub dir with index file %s'' [S ''relay/server-uuid.index''])"
    using extractPos_without_suffix[where r = "exampleReader\<lparr>uuids := []\<rparr>" and env = exampleEnv
        and pos = "\<lparr>Name = ''mysql-bin.000003'', Pos = 1234\<rparr>"] u
    by simp
  have 1: "extractPos exampleEnv exampleReader \<lparr>Name = ''mysql-bin.000003'', Pos = 1234\<rparr>
       = Ok (''u2'', ''000002'', \<lparr>Name = ''mysql-bin.000003'', Pos = 1234\<rparr>)"
    using extractPos_without_suffix[where r = exampleReader and env = exampleEnv
        and pos = "\<lparr>Name = ''mysql-bin.000003'', Pos = 1234\<rparr>"
        and parsed = "\<lparr>baseName = ''mysql-bin'', seq = ''000003''\<rparr>"
        and u = "''u2''" and suffixInt = 2] u i p q
    by simp
  have 2: "extractPos exampleEnv exampleReader \<lparr>Name = ''|mysql-bin.000003'', Pos = 1234\<rparr>
       = Ok (''u2'', ''000002'', \<lparr>Name = ''|mysql-bin.000003'', Pos = 1234\<rparr>)"
    using extractPos_without_suffix[where r = exampleReader and env = exampleEnv
        and pos = "\<lparr>Name = ''|mysql-bin.000003'', Pos = 1234\<rparr>"
        and parsed = "\<lparr>baseName = ''|mysql-bin'', seq = ''000003''\<rparr>"
        and u = "''u2''" and suffixInt = 2] u i p q
    by simp
  have 3: "extractPos exampleEnv (exampleReader\<lparr>uuids := [''u1'', ''bad'']\<rparr>)
         \<lparr>Name = ''mysql-bin.000003'', Pos = 1234\<rparr>
       = Err (Trace (NotValidf ''UUID (with suffix) %s'' [S ''bad'']))"
    using extractPos_without_suffix[where r = "exampleReader\<lparr>uuids := [''u1'', ''bad'']\<rparr>"
        and env = exampleEnv and pos = "\<lparr>Name = ''mysql-bin.000003'', Pos = 1234\<rparr>"
        and parsed = "\<lparr>baseName = ''mysql-bin'', seq = ''000003''\<rparr>"
        and u = "[]" and suffixInt = 0 and err = "NotValidf ''UUID (with suffix) %s'' [S ''bad'']"] i p q
    by simp
  have 4: "extractPos exampleEnv exampleReader \<lparr>Name = ''mysql-bin'', Pos = 1234\<rparr>
       = Panic ''nil pointer dereference'' []"
    using extractPos_without_suffix[where r = exampleReader and env = exampleEnv
        and pos = "\<lparr>Name = ''mysql-bin'', Pos = 1234\<rparr>"] u p
    by simp
  from 0 1 2 3 4 i(1) p(1) q(1) u(1) show ?thesis
    by simp
qed

lemma send_cong: "sel env' = sel env \<Longrightarrow> send env' = send env"
  by (intro ext) (simp add: send_def)

lemma onEventFunc_cong:
  assumes "parseBinlogFile env' = parseBinlogFile env" and "sel env' = sel env"
  shows "onEventFunc env' = onEventFunc env"
proof (intro ext)
  fix uuidSuffix st e
  show "onEventFunc env' uuidSuffix st e = onEventFunc env uuidSuffix st e"
    unfolding onEventFunc_def send_cong[OF assms(2)] assms(1) by (rule refl)
qed

lemma parseEvents_cong:
  assumes "ParseSuffixForUUID env' = ParseSuffixForUUID env"
    and "SuffixIntToStr env' = SuffixIntToStr env"
    and "parseBinlogFile env' = parseBinlogFile env"
    and "sel env' = sel env"
    and "Join env' = Join env"
    and "\<And>p off. fst (ParseFile env' p off) = fst (ParseFile env p off)"
  shows "parseEvents env' st relayLogFile offset relayLogDir firstParse currentUUID =
     (case parseEvents env st relayLogFile offset relayLogDir firstParse currentUUID of
        (st2, Ok perr) \<Rightarrow> (st2, Ok (snd (ParseFile env' (Join env relayLogDir relayLogFile) offset)))
      | other \<Rightarrow> other)"
  using assms onEventFunc_cong[OF assms(3,4)]
  by (simp add: parseEvents_def sendFakeRotate_def Let_def split: prod.splits option.splits result.splits)

lemma parseEvents_Ok:
  "parseEvents env st relayLogFile offset relayLogDir firstParse currentUUID = (st2, Ok perr)
     \<Longrightarrow> perr = snd (ParseFile env (Join env relayLogDir relayLogFile) offset)"
  by (auto simp: parseEvents_def Let_def split: prod.splits option.splits result.splits if_splits)

lemma afterParse_not_last:
  "afterParse env r relayLogFile relayLogDir fullPath currentUUID False latest perr =
     (case perr of None \<Rightarrow> Ok (False, False, latest, [], []) | Some msg \<Rightarrow> Err (Trace (New msg)))"
  by (simp add: afterParse_def parserError_def split: option.splits)

lemma afterParse_flags:
  "afterParse env r relayLogFile relayLogDir fullPath currentUUID possibleLast latest perr = Ok (sw, rp, lp, nu, nb)
     \<Longrightarrow> \<not> (sw \<and> rp) \<and> (sw \<longrightarrow> possibleLast)"
  by (auto simp: afterParse_def check_def split: option.splits result.splits if_splits prod.splits)

text \<open>
  C10. Whenever \<open>parseFile\<close> returns with a nil error, \<open>needSwitch\<close> and \<open>needReParse\<close> are
  not both true, and \<open>needSwitch\<close> is true only if the file was possibly the last. For a file
  that is not possibly the last, a return with a nil error is no switch and no re-parse
  (with the latest position), and the whole result is the same whatever the reader (its UUID
  index), the directory listings and the file sizes are: \<open>needSwitchSubDir\<close> is not asked.
\<close>

theorem parseFile_switch_or_reparse:
  "(parseFile env r st relayLogFile offset relayLogDir firstParse currentUUID possibleLast
        = (st', Ok (needSwitch, needReParse, lp, nextUUID, nextBinlogName)) \<longrightarrow>
      \<not> (needSwitch \<and> needReParse) \<and> (needSwitch \<longrightarrow> possibleLast))
   \<and> (\<forall>st2 res. parseFile env r st relayLogFile offset relayLogDir firstParse currentUUID False = (st2, Ok res) \<longrightarrow>
         res = (False, False, latestPos st2, [], []))
   \<and> parseFile (env\<lparr>readDir := rd, Stat := sz\<rparr>) r' st relayLogFile offset relayLogDir firstParse currentUUID False
       = parseFile env r st relayLogFile offset relayLogDir firstParse currentUUID False"
proof -
  have one: "\<not> (needSwitch \<and> needReParse) \<and> (needSwitch \<longrightarrow> possibleLast)"
    if p: "parseFile env r st relayLogFile offset relayLogDir firstParse currentUUID possibleLast
        = (st', Ok (needSwitch, needReParse, lp, nextUUID, nextBinlogName))"
  proof -
    from p have "\<exists>perr latest. afterParse env r relayLogFile relayLogDir (Join env relayLogDir relayLogFile) currentUUID possibleLast latest perr
        = Ok (needSwitch, needReParse, lp, nextUUID, nextBinlogName)"
      by (auto simp: parseFile_def split: prod.splits result.splits)
    then show ?thesis
      using afterParse_flags by blast
  qed
  have two: "res = (False, False, latestPos st2, [], [])"
    if "parseFile env r st relayLogFile offset relayLogDir firstParse currentUUID False = (st2, Ok res)" for st2 res
    using that
    by (auto simp: parseFile_def afterParse_not_last split: prod.splits result.splits option.splits)
  have "parseEvents (env\<lparr>readDir := rd, Stat := sz\<rparr>) st relayLogFile offset relayLogDir firstParse currentUUID
      = parseEvents env st relayLogFile offset relayLogDir firstParse currentUUID"
    by (subst parseEvents_cong[where env = env])
       (auto split: prod.splits result.splits dest: parseEvents_Ok)
  then have three: "parseFile (env\<lparr>readDir := rd, Stat := sz\<rparr>) r' st relayLogFile offset relayLogDir firstParse currentUUID False
       = parseFile env r st relayLogFile offset relayLogDir firstParse currentUUID False"
    unfolding parseFile_def afterParse_not_last by simp
  from one two three show ?thesis
    by blast
qed

lemma example_parseEvents_empty:
  "parseEvents exampleEnv exampleState ''mysql-bin.000003'' offset ''relay/u1'' False ''u1''
     = (exampleState\<lparr>latestPos := offset\<rparr>, Ok None)"
  by (simp add: parseEvents_def exampleEnv_def exampleState_def exampleParseSuffixForUUID_def Let_def)

lemma example_needSwitchSubDir:
  "needSwitchSubDir exampleEnv exampleReader ''u1'' ''relay/u1/mysql-bin.000003'' latestSize
     = (if latestSize < 1500 then Ok (False, True, [], [])
        else if latestSize = 1500 then Ok (True, False, ''u2'', ''mysql-bin.000001'')
        else Panic ''relay log file size has changed from %d to %d'' [I latestSize, I 1500])"
  by (simp add: needSwitchSubDir_def getNextUUID_def getFirstBinlogName_def fileSizeUpdated_def
        check_def exampleEnv_def exampleReader_def exampleParseSuffixForUUID_def
        exampleParseBinlogFile_def)

lemma example_parseFile_last:
  "parseFile exampleEnv exampleReader exampleState ''mysql-bin.000003'' offset ''relay/u1'' False ''u1'' True
     = (exampleState\<lparr>latestPos := offset\<rparr>,
        if offset < 1500 then Ok (False, True, offset, [], [])
        else if offset = 1500 then Ok (True, False, 0, ''u2'', ''mysql-bin.000001'')
        else Panic ''relay log file size has changed from %d to %d'' [I offset, I 1500])"
proof -
  have j: "Join exampleEnv ''relay/u1'' ''mysql-bin.000003'' = ''relay/u1/mysql-bin.000003''"
    by (simp add: exampleEnv_def)
  show ?thesis
    by (simp add: parseFile_def example_parseEvents_empty afterParse_def parserError_def j
          example_needSwitchSubDir check_def)
qed

text \<open>
  The example file of 1500 bytes: parsed as possibly the last up to 1234 (re-parse) and up to
  1500 (switch), and parsed as not the last, with the index and the file system changed.
\<close>

theorem parseFile_switch_or_reparse_witness:
  "parseFile exampleEnv exampleReader exampleState ''mysql-bin.000003'' 1234 ''relay/u1'' False ''u1'' True
     = (exampleState\<lparr>latestPos := 1234\<rparr>, Ok (False, True, 1234, [], []))
   \<and> parseFile exampleEnv exampleReader exampleState ''mysql-bin.000003'' 1500 ''relay/u1'' False ''u1'' True
     = (exampleState\<lparr>latestPos := 1500\<rparr>, Ok (True, False, 0, ''u2'', ''mysql-bin.000001''))
   \<and> parseFile exampleEnv exampleReader exampleState ''mysql-bin.000003'' 1234 ''relay/u1'' False ''u1'' False
     = (exampleState\<lparr>latestPos := 1234\<rparr>, Ok (False, False, 1234, [], []))
   \<and> parseFile (exampleEnv\<lparr>readDir := (\<lambda>d. Err (New ''gone'')), Stat := (\<lambda>p. Err (New ''gone''))\<rparr>)
        (exampleReader\<lparr>uuids := []\<rparr>) exampleState ''mysql-bin.000003'' 1234 ''relay/u1'' False ''u1'' False
     = parseFile exampleEnv exampleReader exampleState ''mysql-bin.000003'' 1234 ''relay/u1'' False ''u1'' False"
proof -
  have a: "parseFile exampleEnv exampleReader exampleState ''mysql-bin.000003'' 1234 ''relay/u1'' False ''u1'' True
     = (exampleState\<lparr>latestPos := 1234\<rparr>, Ok (False, True, 1234, [], []))"
    by (simp add: example_parseFile_last)
  have b: "parseFile exampleEnv exampleReader exampleState ''mysql-bin.000003'' 1500 ''relay/u1'' False ''u1'' True
     = (exampleState\<lparr>latestPos := 1500\<rparr>, Ok (True, False, 0, ''u2'', ''mysql-bin.000001''))"
    by (simp add: example_parseFile_last)
  have c: "parseFile exampleEnv exampleReader exampleState ''mysql-bin.000003'' 1234 ''relay/u1'' False ''u1'' False
     = (exampleState\<lparr>latestPos := 1234\<rparr>, Ok (False, False, 1234, [], []))"
    by (simp add: parseFile_def example_parseEvents_empty afterParse_not_last)
  note t = parseFile_switch_or_reparse[where env = exampleEnv and r = exampleReader
      and st = exampleState and relayLogFile = "''mysql-bin.000003''" and offset = 1234
      and relayLogDir = "''relay/u1''" and firstParse = False and currentUUID = "''u1''"
      and rd = "\<lambda>d. Err (New ''gone'')" and sz = "\<lambda>p. Err (New ''gone'')"
      and r' = "exampleReader\<lparr>uuids := []\<rparr>" and possibleLast = True
      and st' = "exampleState\<lparr>latestPos := 1234\<rparr>" and needSwitch = False and needReParse = True
      and lp = 1234 and nextUUID = "[]" and nextBinlogName = "[]"]
  from t a b c show ?thesis
    by simp
qed

lemma nextUUIDFrom_ParseFile:
  "nextUUIDFrom (env\<lparr>ParseFile := f\<rparr>) us currentUUID n = nextUUIDFrom env us currentUUID n"
  by (induction n) simp_all

lemma firstBinlogName_ParseFile:
  "firstBinlogName (env\<lparr>ParseFile := f\<rparr>) fpath fs = firstBinlogName env fpath fs"
  by (induction fs) simp_all

lemma watchLoop_ParseFile:
  "watchLoop (env\<lparr>ParseFile := f\<rparr>) relayLogDir ws = watchLoop env relayLogDir ws"
  by (induction env relayLogDir ws rule: watchLoop.induct) (auto split: option.splits)

lemma getNextUUID_ParseFile:
  "getNextUUID (env\<lparr>ParseFile := f\<rparr>) r currentUUID = getNextUUID env r currentUUID"
  by (simp add: getNextUUID_def nextUUIDFrom_ParseFile)

lemma getFirstBinlogName_ParseFile:
  "getFirstBinlogName (env\<lparr>ParseFile := f\<rparr>) r currentUUID = getFirstBinlogName env r currentUUID"
proof -
  have "firstBinlogName (env\<lparr>ParseFile := f\<rparr>) = firstBinlogName env"
    by (intro ext) (rule firstBinlogName_ParseFile)
  then show ?thesis
    by (simp add: getFirstBinlogName_def Let_def)
qed

lemma fileSizeUpdated_ParseFile:
  "fileSizeUpdated (env\<lparr>ParseFile := f\<rparr>) path latestSize = fileSizeUpdated env path latestSize"
  by (simp add: fileSizeUpdated_def)

lemma needSwitchSubDir_ParseFile:
  "needSwitchSubDir (env\<lparr>ParseFile := f\<rparr>) r currentUUID path latestSize
     = needSwitchSubDir env r currentUUID path latestSize"
  unfolding needSwitchSubDir_def getNextUUID_ParseFile getFirstBinlogName_ParseFile
    fileSizeUpdated_ParseFile by (rule refl)

lemma relaySubDirUpdated_ParseFile:
  "relaySubDirUpdated (env\<lparr>ParseFile := f\<rparr>) relayLogDir path latestSize
     = relaySubDirUpdated env relayLogDir path latestSize"
proof -
  have sel: "watcherFeed (env\<lparr>ParseFile := f\<rparr>) = watcherFeed env"
    "watcherStart (env\<lparr>ParseFile := f\<rparr>) = watcherStart env"
    "watcherAdd (env\<lparr>ParseFile := f\<rparr>) = watcherAdd env"
    by simp_all
  show ?thesis
    unfolding relaySubDirUpdated_def fileSizeUpdated_ParseFile watchLoop_ParseFile sel
    by (rule refl)
qed

lemma afterParse_ParseFile:
  "afterParse (env\<lparr>ParseFile := f\<rparr>) r relayLogFile relayLogDir fullPath currentUUID possibleLast latest perr
     = afterParse env r relayLogFile relayLogDir fullPath currentUUID possibleLast latest perr"
  unfolding afterParse_def needSwitchSubDir_ParseFile relaySubDirUpdated_ParseFile by (rule refl)

text \<open>
  C6, amended. Let the parser have been called and have returned an error with message
  \<open>msg\<close>. If the file is possibly the last and the message contains \<open>err EOF\<close>,
  \<open>parseFile\<close> returns what it returns when the parser hands over the same events and no
  error (so it goes on to the switch and growth checks, which may still fail). Otherwise
  \<open>parseFile\<close> returns the parser's error, traced; no annotation is put on it.
\<close>

theorem parser_error_soft_or_fatal:
  assumes "parseEvents env st relayLogFile offset relayLogDir firstParse currentUUID = (st2, Ok (Some msg))"
  shows "(possibleLast \<and> Contains msg ''err EOF'' \<longrightarrow>
        parseFile env r st relayLogFile offset relayLogDir firstParse currentUUID possibleLast
          = parseFile (env\<lparr>ParseFile := (\<lambda>p off. (fst (ParseFile env p off), None))\<rparr>)
              r st relayLogFile offset relayLogDir firstParse currentUUID possibleLast)
     \<and> (\<not> (possibleLast \<and> Contains msg ''err EOF'') \<longrightarrow>
        parseFile env r st relayLogFile offset relayLogDir firstParse currentUUID possibleLast = (st2, Err (Trace (New msg)))
        \<and> errorContext (Trace (New msg)) = [])"
proof -
  let ?env = "env\<lparr>ParseFile := (\<lambda>p off. (fst (ParseFile env p off), None))\<rparr>"
  have e: "parseEvents ?env st relayLogFile offset relayLogDir firstParse currentUUID = (st2, Ok None)"
    by (subst parseEvents_cong[where env = env]) (simp_all add: assms)
  have j: "Join ?env = Join env"
    by simp
  have soft: "afterParse env r relayLogFile relayLogDir (Join env relayLogDir relayLogFile) currentUUID True (latestPos st2) (Some msg)
      = afterParse env r relayLogFile relayLogDir (Join env relayLogDir relayLogFile) currentUUID True (latestPos st2) None"
    if "Contains msg ''err EOF''"
    using that by (simp add: afterParse_def parserError_def)
  have 1: "parseFile env r st relayLogFile offset relayLogDir firstParse currentUUID possibleLast
      = parseFile ?env r st relayLogFile offset relayLogDir firstParse currentUUID possibleLast"
    if "possibleLast" and "Contains msg ''err EOF''"
    using that soft by (simp add: parseFile_def assms e afterParse_ParseFile)
  have 2: "parseFile env r st relayLogFile offset relayLogDir firstParse currentUUID possibleLast = (st2, Err (Trace (New msg)))"
    if "\<not> (possibleLast \<and> Contains msg ''err EOF'')"
    using that by (auto simp: parseFile_def assms afterParse_def parserError_def)
  from 1 2 show ?thesis by simp
qed

lemma example_parseEvents:
  "parseEvents (exampleParserEnv msg) exampleState ''mysql-bin.000003'' 1234 ''relay/u1'' False ''u1''
     = (exampleParsedState, Ok (Some msg))"
  by (simp add: parseEvents_def exampleParserEnv_def exampleEnv_def exampleState_def
        exampleParsedState_def exampleParseSuffixForUUID_def onEventFunc_def send_def
        xidAt_def header_def Let_def)

lemma example_contains: "Contains exampleEOF ''err EOF''"
  by (simp add: exampleEOF_def)

lemma example_not_contains: "\<not> Contains ''invalid checksum'' ''err EOF''"
  by simp

text \<open>
  A parser error with \<open>err EOF\<close> in its message, on a file that is possibly the last and on
  one that is not.
\<close>

theorem parser_error_soft_or_fatal_witness:
  "parseEvents (exampleParserEnv exampleEOF) exampleState ''mysql-bin.000003'' 1234 ''relay/u1'' False ''u1''
     = (exampleParsedState, Ok (Some exampleEOF))
   \<and> Contains exampleEOF ''err EOF''
   \<and> parseFile (exampleParserEnv exampleEOF) exampleReader exampleState ''mysql-bin.000003'' 1234
        ''relay/u1'' False ''u1'' True
       = parseFile ((exampleParserEnv exampleEOF)
            \<lparr>ParseFile := (\<lambda>p off. (fst (ParseFile (exampleParserEnv exampleEOF) p off), None))\<rparr>)
          exampleReader exampleState ''mysql-bin.000003'' 1234 ''relay/u1'' False ''u1'' True
   \<and> parseFile (exampleParserEnv exampleEOF) exampleReader exampleState ''mysql-bin.000003'' 1234
        ''relay/u1'' False ''u1'' False
       = (exampleParsedState, Err (Trace (New exampleEOF)))"
  using example_contains
    parser_error_soft_or_fatal[OF example_parseEvents[of exampleEOF],
      where possibleLast = True and r = exampleReader]
    parser_error_soft_or_fatal[OF example_parseEvents[of exampleEOF],
      where possibleLast = False and r = exampleReader]
  by (simp add: example_parseEvents)

text \<open>
  C6, as stated, fails twice. The error returned for the parser error \<open>invalid checksum\<close>
  is that error, traced, with no context of file and offset on it. And with an \<open>err EOF\<close>
  error on a file that is possibly the last, \<open>parseFile\<close> can still return an error: here
  the next epoch's directory holds no binlog file.
\<close>

theorem parser_error_without_context_and_soft_eof_error:
  "parseFile (exampleParserEnv ''invalid checksum'') exampleReader exampleState ''mysql-bin.000003''
       1234 ''relay/u1'' False ''u1'' False
     = (exampleParsedState, Err (Trace (New ''invalid checksum'')))
   \<and> errorContext (Trace (New ''invalid checksum'')) = []
   \<and> Contains exampleEOF ''err EOF''
   \<and> parseFile ((exampleParserEnv exampleEOF)\<lparr>readDir := (\<lambda>d. Ok [''relay.meta''])\<rparr>) exampleReader
       exampleState ''mysql-bin.000003'' 1234 ''relay/u1'' False ''u1'' True
     = (exampleParsedState, Err (Trace (Trace (NotFoundf ''binlog files in dir %s'' [S ''relay/u2'']))))"
proof -
  have p: "parseEvents ((exampleParserEnv exampleEOF)\<lparr>readDir := (\<lambda>d. Ok [''relay.meta''])\<rparr>)
      exampleState ''mysql-bin.000003'' 1234 ''relay/u1'' False ''u1''
     = (exampleParsedState, Ok (Some exampleEOF))"
    by (simp add: parseEvents_def exampleParserEnv_def exampleEnv_def exampleState_def
          exampleParsedState_def exampleParseSuffixForUUID_def onEventFunc_def send_def
          xidAt_def header_def Let_def)
  have n: "needSwitchSubDir ((exampleParserEnv exampleEOF)\<lparr>readDir := (\<lambda>d. Ok [''relay.meta''])\<rparr>)
      exampleReader ''u1'' ''relay/u1/mysql-bin.000003'' 1300
     = Err (Trace (NotFoundf ''binlog files in dir %s'' [S ''relay/u2'']))"
    by (simp add: needSwitchSubDir_def getNextUUID_def getFirstBinlogName_def check_def
          exampleParserEnv_def exampleEnv_def exampleReader_def exampleParseSuffixForUUID_def)
  have j: "Join (exampleParserEnv exampleEOF) ''relay/u1'' ''mysql-bin.000003''
      = ''relay/u1/mysql-bin.000003''"
    by (simp add: exampleParserEnv_def exampleEnv_def)
  have l: "latestPos exampleParsedState = 1300"
    by (simp add: exampleParsedState_def)
  have a: "parseFile ((exampleParserEnv exampleEOF)\<lparr>readDir := (\<lambda>d. Ok [''relay.meta''])\<rparr>) exampleReader
       exampleState ''mysql-bin.000003'' 1234 ''relay/u1'' False ''u1'' True
     = (exampleParsedState, Err (Trace (Trace (NotFoundf ''binlog files in dir %s'' [S ''relay/u2'']))))"
    by (simp add: parseFile_def p afterParse_def parserError_def example_contains j l n check_def)
  have b: "parseFile (exampleParserEnv ''invalid checksum'') exampleReader exampleState ''mysql-bin.000003''
       1234 ''relay/u1'' False ''u1'' False
     = (exampleParsedState, Err (Trace (New ''invalid checksum'')))"
    by (simp add: parseFile_def example_parseEvents afterParse_def parserError_def)
  from a b example_contains show ?thesis
    by simp
qed

lemma send_ch:
  "ch st' = ch st \<Longrightarrow> \<exists>xs. ch (fst (send env st' e)) = ch st @ xs \<and> length xs \<le> Suc 0"
  by (cases "sel env (offers st')") (simp_all add: send_def)

lemma onEventFunc_ch:
  "\<exists>xs. ch (fst (onEventFunc env s st e)) = ch st @ xs \<and> length xs \<le> Suc 0"
proof (cases "Flags (Header e) AND 0x0040 \<noteq> 0")
  case True
  then show ?thesis by (simp add: onEventFunc_def)
next
  case False
  show ?thesis
  proof (cases "EventType (Header e) = ROTATE_EVENT")
    case r: True
    show ?thesis
    proof (cases "Event e")
      case (RotateEvent p n)
      show ?thesis
      proof (cases "fst (parseBinlogFile env n)")
        case None
        with False r RotateEvent show ?thesis by (simp add: onEventFunc_def)
      next
        case (Some parsed)
        with False r RotateEvent show ?thesis
          by (auto simp: onEventFunc_def Let_def intro!: send_ch)
      qed
    qed (use False r in \<open>simp_all add: onEventFunc_def\<close>)
  next
    case nr: False
    have "onEventFunc env s st e = send env (st\<lparr>latestServerID := ServerID (Header e)\<rparr>) e
        \<or> onEventFunc env s st e
          = send env (st\<lparr>latestServerID := ServerID (Header e), latestPos := uint (LogPos (Header e))\<rparr>) e"
      using False nr by (cases "EventType (Header e)") (simp_all add: onEventFunc_def)
    then show ?thesis
      by (auto intro!: send_ch)
  qed
qed

lemma callbacks_ch:
  "\<exists>xs. ch (fst (callbacks (onEventFunc env s) st es)) = ch st @ xs \<and> length xs \<le> length es"
proof (induction es arbitrary: st)
  case Nil
  then show ?case by simp
next
  case (Cons e es)
  obtain st1 res where f: "onEventFunc env s st e = (st1, res)"
    by (cases "onEventFunc env s st e")
  obtain xs where xs: "ch st1 = ch st @ xs" "length xs \<le> Suc 0"
    using onEventFunc_ch[of env s st e] f by auto
  obtain ys where
    ys: "ch (fst (callbacks (onEventFunc env s) st1 es)) = ch st1 @ ys" "length ys \<le> length es"
    using Cons.IH[of st1] by auto
  show ?case
  proof (cases res)
    case (Ok u)
    have "ch (fst (callbacks (onEventFunc env s) st (e # es))) = ch st @ (xs @ ys)"
      using f Ok xs ys by simp
    moreover have "length (xs @ ys) \<le> length (e # es)"
      using xs ys by simp
    ultimately show ?thesis by blast
  next
    case (Err x)
    have "ch (fst (callbacks (onEventFunc env s) st (e # es))) = ch st @ xs"
      using f Err xs by simp
    moreover have "length xs \<le> length (e # es)"
      using xs by simp
    ultimately show ?thesis by blast
  next
    case (Panic m as)
    have "ch (fst (callbacks (onEventFunc env s) st (e # es))) = ch st @ xs"
      using f Panic xs by simp
    moreover have "length xs \<le> length (e # es)"
      using xs by simp
    ultimately show ?thesis by blast
  next
    case Blocked
    have "ch (fst (callbacks (onEventFunc env s) st (e # es))) = ch st @ xs"
      using f Blocked xs by simp
    moreover have "length xs \<le> length (e # es)"
      using xs by simp
    ultimately show ?thesis by blast
  qed
qed

lemma parseFile_state:
  "fst (parseFile env r st relayLogFile offset relayLogDir firstParse currentUUID possibleLast)
     = fst (parseEvents env st relayLogFile offset relayLogDir firstParse currentUUID)"
  by (simp add: parseFile_def split: prod.splits result.splits)

lemma sendFakeRotate_sent:
  assumes "fst (parseBinlogFile env relayLogFile) = Some parsed"
    and "sel env (offers st) = SendCase"
  shows "sendFakeRotate env uuidSuffix relayLogFile offset st =
     (st\<lparr>latestServerID := latestServerID st,
         ch := ch st @
           [\<lparr>Header = \<lparr>Timestamp = 0, EventType = ROTATE_EVENT, ServerID = latestServerID st,
                       LogPos = 0, Flags = LOG_EVENT_ARTIFICIAL_F\<rparr>,
             Event = RotateEvent (word_of_int offset) (constructBinlogName parsed uuidSuffix)\<rparr>],
         offers := Suc (offers st)\<rparr>, Ok ())"
  using assms
  by (simp add: sendFakeRotate_def GenFakeRotateEvent_def onEventFunc_def send_def
        LOG_EVENT_ARTIFICIAL_F_def Let_def)

text \<open>
  C4, amended. For a file parsed for the first time (\<open>firstParse\<close>), whose name and whose
  epoch's UUID parse and whose first send is taken by the channel: the first event
  \<open>parseFile\<close> puts on the channel is the synthesized rotation event, its name the file's
  name rewritten with the suffix of the current epoch, and the position it carries the
  offset at which parsing starts; the events of the parser (\<open>rest\<close>, at most one for each
  event it decodes) come after it.
\<close>

theorem first_parse_sends_fake_rotate:
  assumes "ParseSuffixForUUID env currentUUID = (u, suffixInt, None)"
    and "fst (parseBinlogFile env relayLogFile) = Some parsed"
    and "sel env (offers st) = SendCase"
  shows "\<exists>rest. ch (fst (parseFile env r st relayLogFile offset relayLogDir True currentUUID possibleLast))
        = ch st @
          \<lparr>Header = \<lparr>Timestamp = 0, EventType = ROTATE_EVENT, ServerID = latestServerID st,
                     LogPos = 0, Flags = LOG_EVENT_ARTIFICIAL_F\<rparr>,
           Event = RotateEvent (word_of_int offset)
                     (constructBinlogName parsed (SuffixIntToStr env suffixInt))\<rparr> # rest
      \<and> length rest \<le> length (fst (ParseFile env (Join env relayLogDir relayLogFile) offset))"
proof -
  let ?s = "SuffixIntToStr env suffixInt"
  let ?st0 = "st\<lparr>latestPos := offset\<rparr>"
  let ?fake = "\<lparr>Header = \<lparr>Timestamp = 0, EventType = ROTATE_EVENT, ServerID = latestServerID st,
                     LogPos = 0, Flags = LOG_EVENT_ARTIFICIAL_F\<rparr>,
           Event = RotateEvent (word_of_int offset) (constructBinlogName parsed ?s)\<rparr>"
  let ?evs = "fst (ParseFile env (Join env relayLogDir relayLogFile) offset)"
  obtain st1 where fake: "sendFakeRotate env ?s relayLogFile offset ?st0 = (st1, Ok ())"
    and c1: "ch st1 = ch st @ [?fake]"
    using sendFakeRotate_sent[of env relayLogFile parsed ?st0 ?s offset] assms(2,3) by simp
  obtain xs where xs: "ch (fst (callbacks (onEventFunc env ?s) st1 ?evs)) = ch st1 @ xs"
    "length xs \<le> length ?evs"
    using callbacks_ch by blast
  have "fst (parseEvents env st relayLogFile offset relayLogDir True currentUUID)
      = fst (callbacks (onEventFunc env ?s) st1 ?evs)"
    using assms(1) fake
    by (simp add: parseEvents_def Let_def split: prod.splits result.splits)
  with xs c1 show ?thesis
    by (simp add: parseFile_state)
qed

lemma example_first_parse:
  "ch (fst (parseFile exampleEnv exampleReader exampleState ''mysql-bin.000003'' offset
              ''relay/u1'' True ''u1'' possibleLast))
     = [\<lparr>Header = \<lparr>Timestamp = 0, EventType = ROTATE_EVENT, ServerID = 7, LogPos = 0, Flags = 0x20\<rparr>,
         Event = RotateEvent (word_of_int offset) ''mysql-bin|000001.000003''\<rparr>]"
proof -
  have p: "fst (parseBinlogFile exampleEnv ''mysql-bin.000003'')
      = Some \<lparr>baseName = ''mysql-bin'', seq = ''000003''\<rparr>"
    by (simp add: exampleEnv_def exampleParseBinlogFile_def)
  have s: "sel exampleEnv (offers (exampleState\<lparr>latestPos := offset\<rparr>)) = SendCase"
    by (simp add: exampleEnv_def)
  have n: "constructBinlogName \<lparr>baseName = ''mysql-bin'', seq = ''000003''\<rparr> ''000001''
      = ''mysql-bin|000001.000003''"
    by (simp add: constructBinlogName_def posUUIDSuffixSeparator_def baseSeqSeparator_def)
  note f = sendFakeRotate_sent[OF p s, of "''000001''" offset, unfolded n]
  have u: "ParseSuffixForUUID exampleEnv ''u1'' = (''u1'', 1, None)"
    "SuffixIntToStr exampleEnv 1 = ''000001''"
    "ParseFile exampleEnv (Join exampleEnv ''relay/u1'' ''mysql-bin.000003'') offset = ([], None)"
    by (simp_all add: exampleEnv_def exampleParseSuffixForUUID_def exampleSuffixIntToStr_def)
  have e: "latestServerID exampleState = 7" "ch exampleState = []"
    by (simp_all add: exampleState_def)
  have "ch (fst (parseEvents exampleEnv exampleState ''mysql-bin.000003'' offset ''relay/u1'' True ''u1''))
     = [\<lparr>Header = \<lparr>Timestamp = 0, EventType = ROTATE_EVENT, ServerID = 7, LogPos = 0, Flags = 0x20\<rparr>,
         Event = RotateEvent (word_of_int offset) ''mysql-bin|000001.000003''\<rparr>]"
    by (simp add: parseEvents_def u f Let_def e LOG_EVENT_ARTIFICIAL_F_def)
  then show ?thesis
    by (simp add: parseFile_state)
qed

text \<open>
  C4, as stated, fails: started on \<open>mysql-bin.000003\<close> at offset 1234 in epoch \<open>u1\<close>, the
  one event sent is the synthesized rotation event naming \<open>mysql-bin|000001.000003\<close>, and it
  carries 1234, not 4.
\<close>

theorem fake_rotate_carries_start_offset:
  "ch (fst (parseFile exampleEnv exampleReader exampleState ''mysql-bin.000003'' 1234
              ''relay/u1'' True ''u1'' True))
     = [\<lparr>Header = \<lparr>Timestamp = 0, EventType = ROTATE_EVENT, ServerID = 7, LogPos = 0, Flags = 0x20\<rparr>,
         Event = RotateEvent 1234 ''mysql-bin|000001.000003''\<rparr>]"
  using example_first_parse[of 1234 True] by simp

text \<open>
  The same start at offset 4, on an empty channel.
\<close>

theorem first_parse_sends_fake_rotate_witness:
  "ParseSuffixForUUID exampleEnv ''u1'' = (''u1'', 1, None)
   \<and> fst (parseBinlogFile exampleEnv ''mysql-bin.000003'') = Some \<lparr>baseName = ''mysql-bin'', seq = ''000003''\<rparr>
   \<and> sel exampleEnv (offers exampleState) = SendCase
   \<and> ch exampleState = []
   \<and> (\<exists>rest. ch (fst (parseFile exampleEnv exampleReader exampleState ''mysql-bin.000003'' 4
                        ''relay/u1'' True ''u1'' True))
        = \<lparr>Header = \<lparr>Timestamp = 0, EventType = ROTATE_EVENT, ServerID = 7,
                     LogPos = 0, Flags = 0x20\<rparr>,
           Event = RotateEvent 4 ''mysql-bin|000001.000003''\<rparr> # rest)"
proof -
  have h1: "ParseSuffixForUUID exampleEnv ''u1'' = (''u1'', 1, None)"
    by (simp add: exampleEnv_def exampleParseSuffixForUUID_def)
  have h2: "fst (parseBinlogFile exampleEnv ''mysql-bin.000003'')
      = Some \<lparr>baseName = ''mysql-bin'', seq = ''000003''\<rparr>"
    by (simp add: exampleEnv_def exampleParseBinlogFile_def)
  have h3: "sel exampleEnv (offers exampleState) = SendCase"
    by (simp add: exampleEnv_def)
  have n: "constructBinlogName \<lparr>baseName = ''mysql-bin'', seq = ''000003''\<rparr>
      (SuffixIntToStr exampleEnv 1) = ''mysql-bin|000001.000003''"
    by (simp add: constructBinlogName_def posUUIDSuffixSeparator_def baseSeqSeparator_def
          exampleEnv_def exampleSuffixIntToStr_def)
  have s: "ch exampleState = []" "latestServerID exampleState = 7"
    by (simp_all add: exampleState_def)
  note t = first_parse_sends_fake_rotate[OF h1 h2 h3, where r = exampleReader and offset = 4
      and relayLogDir = "''relay/u1''" and possibleLast = True, unfolded n s LOG_EVENT_ARTIFICIAL_F_def]
  from t obtain rest where
    "ch (fst (parseFile exampleEnv exampleReader exampleState ''mysql-bin.000003'' 4
          ''relay/u1'' True ''u1'' True))
      = \<lparr>Header = \<lparr>Timestamp = 0, EventType = ROTATE_EVENT, ServerID = 7, LogPos = 0, Flags = 0x20\<rparr>,
         Event = RotateEvent 4 ''mysql-bin|000001.000003''\<rparr> # rest"
    by auto
  with h1 h2 h3 s(1) show ?thesis
    by blast
qed

end
